theory Spec2Isabelle
  imports Main "HOL-Library.AList"
begin

section \<open>JavaScript values and strings\<close>

text \<open>
  Strings are lists of \<^typ>\<open>char\<close>; a character stands for one UTF-16 code unit below 256
  (the Latin-1 range), so \<^const>\<open>length\<close> is JavaScript's \<^verbatim>\<open>.length\<close> on such strings.
  Values read from a JSON document or from a request body are \<^verbatim>\<open>jsval\<close>s. The code
  only converts them to text and tests them for truth, so a number is kept as the text
  \<^verbatim>\<open>String(n)\<close> gives for it (\<^verbatim>\<open>0\<close> for both zeros, \<^verbatim>\<open>NaN\<close> for not-a-number), and an
  object or array as the text \<^verbatim>\<open>String(v)\<close> gives for it, \<^const>\<open>None\<close> when the conversion
  throws (an object whose \<^verbatim>\<open>toString\<close> and \<^verbatim>\<open>valueOf\<close> give no primitive value).
\<close>

datatype jsval = JUndefined | JNull | JBool bool | JNum string | JStr string | JObject "string option"

text \<open>
  A function that can throw returns a sum: \<^const>\<open>Inl\<close> carries the message of the Error
  thrown. This is the message of the TypeError of a failed conversion.
\<close>

definition cannot_convert :: string where
  "cannot_convert = ''Cannot convert object to primitive value''"

text \<open>\<^verbatim>\<open>String(v)\<close>.\<close>

fun js_String :: "jsval \<Rightarrow> string + string" where
  "js_String JUndefined = Inr ''undefined''"
| "js_String JNull = Inr ''null''"
| "js_String (JBool b) = Inr (if b then ''true'' else ''false'')"
| "js_String (JNum n) = Inr n"
| "js_String (JStr s) = Inr s"
| "js_String (JObject None) = Inl cannot_convert"
| "js_String (JObject (Some s)) = Inr s"

text \<open>Truthiness: what \<^verbatim>\<open>!v\<close>, \<^verbatim>\<open>a || b\<close> and \<^verbatim>\<open>if (v)\<close> test.\<close>

fun truthy :: "jsval \<Rightarrow> bool" where
  "truthy JUndefined = False"
| "truthy JNull = False"
| "truthy (JBool b) = b"
| "truthy (JNum n) = (n \<noteq> ''0'' \<and> n \<noteq> ''NaN'')"
| "truthy (JStr s) = (s \<noteq> [])"
| "truthy (JObject s) = True"

text \<open>\<^verbatim>\<open>a || b\<close> and \<^verbatim>\<open>a ?? b\<close>.\<close>

definition js_or :: "jsval \<Rightarrow> jsval \<Rightarrow> jsval" where
  "js_or a b = (if truthy a then a else b)"

definition js_nullish :: "jsval \<Rightarrow> jsval \<Rightarrow> jsval" where
  "js_nullish a b = (if a = JUndefined \<or> a = JNull then b else a)"

text \<open>
  \<^verbatim>\<open>trim\<close> strips white space and line terminators from both ends; below 256 these are
  TAB, LF, VT, FF, CR, SPACE and NBSP.
\<close>

definition is_ws :: "char \<Rightarrow> bool" where
  "is_ws c = (c \<in> set [CHR 0x09, CHR 0x0A, CHR 0x0B, CHR 0x0C, CHR 0x0D, CHR 0x20, CHR 0xA0])"

definition js_trim :: "string \<Rightarrow> string" where
  "js_trim s = rev (dropWhile is_ws (rev (dropWhile is_ws s)))"

text \<open>
  \<^verbatim>\<open>toLowerCase\<close>: below 256 the upper-case letters are A to Z and U+00C0 to U+00DE
  without the multiplication sign U+00D7; each has its lower-case letter 32 places later.
\<close>

definition lower_char :: "char \<Rightarrow> char" where
  "lower_char c =
     (let n = (of_char c :: nat)
      in if (65 \<le> n \<and> n \<le> 90) \<or> (192 \<le> n \<and> n \<le> 222 \<and> n \<noteq> 215)
         then char_of (n + 32) else c)"

definition toLowerCase :: "string \<Rightarrow> string" where
  "toLowerCase s = map lower_char s"

definition startsWith :: "string \<Rightarrow> string \<Rightarrow> bool" where
  "startsWith s p = (take (length p) s = p)"

text \<open>\<^verbatim>\<open>s.includes(sub)\<close>: \<open>sub\<close> occurs in \<open>s\<close> as a contiguous run.\<close>

fun str_includes :: "string \<Rightarrow> string \<Rightarrow> bool" where
  "str_includes [] sub = (sub = [])"
| "str_includes (c # cs) sub = (startsWith (c # cs) sub \<or> str_includes cs sub)"

text \<open>\<^verbatim>\<open>s.split(sep)\<close> for a one-character separator: always at least one part.\<close>

fun str_split :: "char \<Rightarrow> string \<Rightarrow> string list" where
  "str_split sep [] = [[]]"
| "str_split sep (c # cs) =
     (if c = sep then [] # str_split sep cs
      else (case str_split sep cs of [] \<Rightarrow> [[c]] | p # ps \<Rightarrow> (c # p) # ps))"

text \<open>\<^verbatim>\<open>xs.join(sep)\<close>.\<close>

fun str_join :: "string \<Rightarrow> string list \<Rightarrow> string" where
  "str_join sep [] = []"
| "str_join sep [x] = x"
| "str_join sep (x # y # ys) = x @ sep @ str_join sep (y # ys)"

text \<open>
  \<^verbatim>\<open>[...new Set(xs)]\<close>: a Set keeps its members in insertion order and ignores a value
  it already holds, so the spread lists each value at its first occurrence.
\<close>

fun set_add_all :: "string list \<Rightarrow> string list \<Rightarrow> string list" where
  "set_add_all seen [] = seen"
| "set_add_all seen (x # xs) = set_add_all (if x \<in> set seen then seen else seen @ [x]) xs"

definition new_Set :: "string list \<Rightarrow> string list" where
  "new_Set xs = set_add_all [] xs"

section \<open>Utilities of the server\<close>

text \<open>\<^verbatim>\<open>isDataUrl\<close>: a string that starts with \<^verbatim>\<open>data:image/\<close>.\<close>

fun isDataUrl :: "jsval \<Rightarrow> bool" where
  "isDataUrl (JStr s) = startsWith s ''data:image/''"
| "isDataUrl _ = False"

text \<open>
  \<^verbatim>\<open>safeStr(s, max)\<close>: null for \<^verbatim>\<open>null\<close>, \<^verbatim>\<open>undefined\<close> and a blank text, else the
  trimmed text, cut to its first \<open>mx\<close> characters. \<^const>\<open>None\<close> is JavaScript's null.
\<close>

definition safeStr :: "jsval \<Rightarrow> nat \<Rightarrow> string + string option" where
  "safeStr s mx =
     (if s = JUndefined \<or> s = JNull then Inr None
      else case js_String s of
             Inl e \<Rightarrow> Inl e
           | Inr t \<Rightarrow>
              let v = js_trim t
              in if v = [] then Inr None
                 else Inr (Some (if length v > mx then take mx v else v)))"

text \<open>
  \<^verbatim>\<open>validateRoleBasic\<close>. Its argument is always a key of the submitted object, hence a
  string: the test \<^verbatim>\<open>typeof role !== "string"\<close> never fires.
\<close>

definition validateRoleBasic :: "string \<Rightarrow> bool" where
  "validateRoleBasic role = (if role = [] then False else if length role > 100 then False else True)"

section \<open>Role extractor\<close>

text \<open>
  One element of \<^verbatim>\<open>config.signatures\<close>: an object with its \<^verbatim>\<open>role\<close> and \<^verbatim>\<open>id\<close> properties
  (\<^const>\<open>JUndefined\<close> when the property is absent), or a value without properties
  (\<^verbatim>\<open>null\<close>, a number, a string: \<^verbatim>\<open>s?.role\<close> is undefined). The configuration is the parsed
  document; \<open>signatures\<close> is \<^const>\<open>None\<close> when \<^verbatim>\<open>config.signatures\<close> is not an array.
\<close>

datatype sig_elem = SigObj jsval jsval | SigOther

fun elem_role :: "sig_elem \<Rightarrow> jsval" where
  "elem_role (SigObj r i) = r"
| "elem_role SigOther = JUndefined"

fun elem_id :: "sig_elem \<Rightarrow> jsval" where
  "elem_id (SigObj r i) = i"
| "elem_id SigOther = JUndefined"

record config =
  signatures :: "sig_elem list option"

text \<open>
  \<^verbatim>\<open>safeStr(s?.role, 100) || safeStr(s?.id, 100)\<close>: the id is looked at only when the role
  gives null (a result of safeStr with a positive bound is never the empty text).
\<close>

definition elem_required :: "sig_elem \<Rightarrow> string + string option" where
  "elem_required s =
     (case safeStr (elem_role s) 100 of
        Inl e \<Rightarrow> Inl e
      | Inr (Some r) \<Rightarrow> Inr (Some r)
      | Inr None \<Rightarrow> safeStr (elem_id s) 100)"

fun push_roles :: "string list \<Rightarrow> sig_elem list \<Rightarrow> string + string list" where
  "push_roles roles [] = Inr roles"
| "push_roles roles (s # sigs) =
     (case elem_required s of
        Inl e \<Rightarrow> Inl e
      | Inr (Some r) \<Rightarrow> push_roles (roles @ [r]) sigs
      | Inr None \<Rightarrow> push_roles roles sigs)"

definition extractRequiredRolesFromConfig :: "config \<Rightarrow> string + string list" where
  "extractRequiredRolesFromConfig cfg =
     (let sigs = (case signatures cfg of Some a \<Rightarrow> a | None \<Rightarrow> [])
      in case push_roles [] sigs of
           Inl e \<Rightarrow> Inl e
         | Inr roles \<Rightarrow> Inr (new_Set roles))"

record roles_split =
  customer :: "string list"
  company :: "string list"

fun split_loop :: "roles_split \<Rightarrow> string list \<Rightarrow> roles_split" where
  "split_loop acc [] = acc"
| "split_loop acc (r # rs) =
     (let low = toLowerCase r
      in split_loop
           (if str_includes low ''customer'' then acc\<lparr>customer := customer acc @ [r]\<rparr>
            else if str_includes low ''company'' then acc\<lparr>company := company acc @ [r]\<rparr>
            else acc) rs)"

definition splitRolesBySigner :: "string list \<Rightarrow> roles_split" where
  "splitRolesBySigner requiredRoles = split_loop \<lparr>customer = [], company = []\<rparr> requiredRoles"

text \<open>
  The specification's wording of the deduplication, to compare with \<^const>\<open>new_Set\<close>:
  keep a value where it occurs first and drop its later occurrences.
\<close>

fun first_occurrences :: "string list \<Rightarrow> string list" where
  "first_occurrences [] = []"
| "first_occurrences (x # xs) = x # removeAll x (first_occurrences xs)"

text \<open>
  The specification's wording of what one element asks for: the role, or else the id,
  as a text that is trimmed, not blank, and cut to 100 characters. \<^const>\<open>None\<close> is an
  element that asks for nothing.
\<close>

definition as_role :: "jsval \<Rightarrow> string option" where
  "as_role v =
     (case v of
        JUndefined \<Rightarrow> None
      | JNull \<Rightarrow> None
      | _ \<Rightarrow> (case js_String v of
               Inl e \<Rightarrow> None
             | Inr t \<Rightarrow> if js_trim t = [] then None else Some (take 100 (js_trim t))))"

definition role_or_id :: "sig_elem \<Rightarrow> string option" where
  "role_or_id s = (case as_role (elem_role s) of Some r \<Rightarrow> Some r | None \<Rightarrow> as_role (elem_id s))"

text \<open>The values whose conversion to text throws.\<close>

definition throws :: "jsval \<Rightarrow> bool" where
  "throws v = (v = JObject None)"

section \<open>Request payload\<close>

text \<open>
  The value under one key of the submitted \<^verbatim>\<open>signatures\<close> object: a string, an object with
  the properties the server reads (\<^const>\<open>JUndefined\<close> when absent; an array is an object
  without them), or anything else (a number, a boolean, \<^verbatim>\<open>null\<close>). The object itself is the
  list of its entries in the order of \<^verbatim>\<open>Object.keys\<close>; \<^const>\<open>None\<close> is a body whose
  \<^verbatim>\<open>signatures\<close> is falsy or not an object.
\<close>

record sig_obj =
  p_image :: jsval
  p_signature_image :: jsval
  p_dataUrl :: jsval
  p_signature :: jsval
  p_signer_name :: jsval
  p_name :: jsval
  p_signerName :: jsval
  p_signer_position :: jsval
  p_position :: jsval
  p_signerPosition :: jsval

datatype pval = PString string | PObject sig_obj | POther

type_synonym payload = "(string \<times> pval) list"

record item =
  it_role :: string
  it_image :: jsval
  it_name :: "string option"
  it_position :: "string option"

definition normalize_entry :: "string \<times> pval \<Rightarrow> string + item" where
  "normalize_entry kv =
     (case snd kv of
        PString s \<Rightarrow> Inr \<lparr>it_role = fst kv, it_image = JStr s, it_name = None, it_position = None\<rparr>
      | PObject v \<Rightarrow>
          (let image' =
                 js_or (js_or (js_or (js_or (p_image v) (p_signature_image v)) (p_dataUrl v))
                   (p_signature v)) JNull
           in case safeStr (js_nullish (js_nullish (js_nullish (p_signer_name v) (p_name v))
                     (p_signerName v)) JNull) 100 of
                Inl e \<Rightarrow> Inl e
              | Inr name' \<Rightarrow>
                 (case safeStr (js_nullish (js_nullish (js_nullish (p_signer_position v)
                           (p_position v)) (p_signerPosition v)) JNull) 255 of
                    Inl e \<Rightarrow> Inl e
                  | Inr position' \<Rightarrow>
                     Inr \<lparr>it_role = fst kv, it_image = image', it_name = name',
                          it_position = position'\<rparr>))
      | POther \<Rightarrow> Inr \<lparr>it_role = fst kv, it_image = JNull, it_name = None, it_position = None\<rparr>)"

fun normalize_loop :: "item list \<Rightarrow> payload \<Rightarrow> string + item list" where
  "normalize_loop out [] = Inr out"
| "normalize_loop out (kv # entries) =
     (case normalize_entry kv of
        Inl e \<Rightarrow> Inl e
      | Inr it \<Rightarrow> normalize_loop (out @ [it]) entries)"

definition normalizeSignaturesPayload :: "payload option \<Rightarrow> string + item list" where
  "normalizeSignaturesPayload signatures' =
     (case signatures' of None \<Rightarrow> Inr [] | Some entries \<Rightarrow> normalize_loop [] entries)"

section \<open>Tables\<close>

text \<open>
  The schema is not part of the sources. Modelled from the spec: a contract has the
  states PENDING, CUSTOMER_SIGNED and COMPLETED and no other; its customer address and its
  final-sent timestamp are null until set; a signature row is unique for (contract, role),
  which is the key the \<^verbatim>\<open>ON DUPLICATE KEY UPDATE\<close> of the upsert reacts to. A stored
  configuration is the text \<^verbatim>\<open>JSON.stringify\<close> wrote, kept here as the parsed document.
  Timestamps are natural numbers.
\<close>

datatype status = PENDING | CUSTOMER_SIGNED | COMPLETED

datatype signer = CUSTOMER | COMPANY

record contract =
  id' :: nat
  document_id :: string
  config :: config
  status :: status
  company_email :: "string option"
  customer_email :: "string option"
  final_sent_at :: "nat option"

record sig_row =
  contract_id :: nat
  role :: string
  signature_image :: jsval
  signer_name :: "string option"
  signer_position :: "string option"
  signer_role :: signer
  signed_at :: nat

record database =
  tbl_contracts :: "contract list"
  tbl_signatures :: "sig_row list"

text \<open>\<^verbatim>\<open>rows[0] || null\<close> of the SELECT by document id.\<close>

definition getContractByDocumentId :: "database \<Rightarrow> string \<Rightarrow> contract option" where
  "getContractByDocumentId d documentId =
     find (\<lambda>c. document_id c = documentId) (tbl_contracts d)"

text \<open>
  The rows of one contract. The query orders them by party, role and time under the
  collation of the columns, which the sources do not give; the rows come in table
  order here, and nothing below depends on their order.
\<close>

definition getSignaturesByContractId :: "database \<Rightarrow> nat \<Rightarrow> sig_row list" where
  "getSignaturesByContractId d contractId =
     filter (\<lambda>r. contract_id r = contractId) (tbl_signatures d)"

text \<open>
  \<^verbatim>\<open>groupSignaturesToMap\<close>: one object per party, from role to row. Assigning to a key
  the object holds replaces its value. Assigning a row to \<^verbatim>\<open>__proto__\<close> creates no key: it
  makes the row the prototype of the object.
\<close>

record party_map =
  own :: "(string \<times> sig_row) list"
  proto :: "sig_row option"

type_synonym signed_map = "signer \<Rightarrow> party_map"

definition assign :: "party_map \<Rightarrow> sig_row \<Rightarrow> party_map" where
  "assign m r =
     (if role r = ''__proto__'' then m\<lparr>proto := Some r\<rparr>
      else m\<lparr>own := AList.update (role r) r (own m)\<rparr>)"

fun group_loop :: "signed_map \<Rightarrow> sig_row list \<Rightarrow> signed_map" where
  "group_loop out [] = out"
| "group_loop out (r # rows) =
     group_loop (out(signer_role r := assign (out (signer_role r)) r)) rows"

definition groupSignaturesToMap :: "sig_row list \<Rightarrow> signed_map" where
  "groupSignaturesToMap rows = group_loop (\<lambda>p. \<lparr>own = [], proto = None\<rparr>) rows"

text \<open>
  \<^verbatim>\<open>INSERT ... ON DUPLICATE KEY UPDATE\<close>: a row with the key (contract, role) gets the new
  image, name, position and time, and keeps its party; without such a row one is added.
\<close>

definition upsert_row :: "nat \<Rightarrow> nat \<Rightarrow> string \<Rightarrow> signer \<Rightarrow> jsval \<Rightarrow> string option \<Rightarrow>
    string option \<Rightarrow> sig_row list \<Rightarrow> sig_row list" where
  "upsert_row now contractId role' signerRole image' name' position' rows =
     (if \<exists>r \<in> set rows. contract_id r = contractId \<and> role r = role'
      then map (\<lambda>r. if contract_id r = contractId \<and> role r = role'
                     then r\<lparr>signature_image := image', signer_name := name',
                            signer_position := position', signed_at := now\<rparr>
                     else r) rows
      else rows @ [\<lparr>contract_id = contractId, role = role', signature_image = image',
                     signer_name = name', signer_position = position',
                     signer_role = signerRole, signed_at = now\<rparr>])"

definition upsertSignature :: "nat \<Rightarrow> database \<Rightarrow> nat \<Rightarrow> string \<Rightarrow> signer \<Rightarrow> jsval \<Rightarrow>
    string option \<Rightarrow> string option \<Rightarrow> database" where
  "upsertSignature now d contractId role' signerRole image' name' position' =
     d\<lparr>tbl_signatures :=
         upsert_row now contractId role' signerRole image' name' position' (tbl_signatures d)\<rparr>"

text \<open>
  \<^verbatim>\<open>assertRolesAllowed\<close> throws at the first role outside the allowed set; the thrown
  message is \<^const>\<open>Inl\<close>.
\<close>

fun roles_allowed_loop :: "string list \<Rightarrow> string list \<Rightarrow> string + unit" where
  "roles_allowed_loop allowed [] = Inr ()"
| "roles_allowed_loop allowed (r # rs) =
     (if r \<notin> set allowed
      then Inl (''ROLE_NOT_ALLOWED:'' @ r @ '':'' @ str_join '', '' allowed)
      else roles_allowed_loop allowed rs)"

definition assertRolesAllowed :: "string list \<Rightarrow> string list \<Rightarrow> string + unit" where
  "assertRolesAllowed payloadRoles allowedRoles =
     roles_allowed_loop (new_Set allowedRoles) payloadRoles"

text \<open>
  \<^verbatim>\<open>signedMap?.[signerRole]?.[r]\<close> as far as a row can come of it: the row under the key
  \<open>r\<close>, and for \<^verbatim>\<open>__proto__\<close> the prototype row. Any other key the object does not hold
  resolves through the prototype chain to a column value of the prototype row or to a
  member of \<^verbatim>\<open>Object.prototype\<close>, whose \<^verbatim>\<open>signature_image\<close> is undefined, as it is for a
  key that resolves to nothing.
\<close>

definition lookup :: "party_map \<Rightarrow> string \<Rightarrow> sig_row option" where
  "lookup m r = (if r = ''__proto__'' then proto m else map_of (own m) r)"

text \<open>\<^verbatim>\<open>assertSignedAll\<close>: the required roles without a truthy stored image for the party.\<close>

definition has_image :: "signed_map \<Rightarrow> signer \<Rightarrow> string \<Rightarrow> bool" where
  "has_image signedMap signerRole r =
     (case lookup (signedMap signerRole) r of
        None \<Rightarrow> False
      | Some row \<Rightarrow> truthy (signature_image row))"

definition assertSignedAll :: "string list \<Rightarrow> signed_map \<Rightarrow> signer \<Rightarrow> string list" where
  "assertSignedAll requiredRoles signedMap signerRole =
     filter (\<lambda>r. \<not> has_image signedMap signerRole r) requiredRoles"

section \<open>Connections, replies and the outside world\<close>

text \<open>
  A pooled connection: the committed tables, the tables as the open transaction sees
  them, and the writing statements issued so far. Reads are functions of \<open>working\<close>.
  Database failures are not modelled.
\<close>

datatype stmt =
    BEGIN
  | UPSERT nat string signer
  | UPDATE_status nat status
  | COMMIT
  | ROLLBACK

record conn =
  committed :: database
  working :: database
  statements :: "stmt list"

definition getConnection :: "database \<Rightarrow> conn" where
  "getConnection d = \<lparr>committed = d, working = d, statements = []\<rparr>"

definition beginTransaction :: "conn \<Rightarrow> conn" where
  "beginTransaction c = c\<lparr>working := committed c, statements := statements c @ [BEGIN]\<rparr>"

definition rollback :: "conn \<Rightarrow> conn" where
  "rollback c = c\<lparr>working := committed c, statements := statements c @ [ROLLBACK]\<rparr>"

definition commit :: "conn \<Rightarrow> conn" where
  "commit c = c\<lparr>committed := working c, statements := statements c @ [COMMIT]\<rparr>"

definition conn_upsert :: "nat \<Rightarrow> nat \<Rightarrow> signer \<Rightarrow> item \<Rightarrow> conn \<Rightarrow> conn" where
  "conn_upsert now contractId signerRole it c =
     c\<lparr>working := upsertSignature now (working c) contractId (it_role it) signerRole
                    (it_image it) (it_name it) (it_position it),
       statements := statements c @ [UPSERT contractId (it_role it) signerRole]\<rparr>"

text \<open>\<^verbatim>\<open>UPDATE contracts SET status = ? WHERE id = ?\<close>.\<close>

definition set_status :: "nat \<Rightarrow> status \<Rightarrow> contract list \<Rightarrow> contract list" where
  "set_status contractId st cs = map (\<lambda>c. if id' c = contractId then c\<lparr>status := st\<rparr> else c) cs"

definition conn_update_status :: "nat \<Rightarrow> status \<Rightarrow> conn \<Rightarrow> conn" where
  "conn_update_status contractId st c =
     c\<lparr>working := (working c)\<lparr>tbl_contracts := set_status contractId st (tbl_contracts (working c))\<rparr>,
       statements := statements c @ [UPDATE_status contractId st]\<rparr>"

text \<open>
  What \<^verbatim>\<open>res.status(n).json(...)\<close> sends: the status and the message, and with them the
  error text, the allowed roles, or the counts and the missing roles. \<^verbatim>\<open>Rejected\<close> is a
  handler that sends nothing: an Error thrown outside its try block rejects its promise.
\<close>

datatype reply =
    Json nat string
  | JsonError nat string string
  | JsonAllowed nat string "string list"
  | JsonPartial nat string nat nat "string list"
  | Rejected string

fun http_status :: "reply \<Rightarrow> nat option" where
  "http_status (Json n m) = Some n"
| "http_status (JsonError n m e) = Some n"
| "http_status (JsonAllowed n m a) = Some n"
| "http_status (JsonPartial n m k r ms) = Some n"
| "http_status (Rejected e) = None"

text \<open>
  The collaborators that can fail: each error is the message of what they throw,
  \<^const>\<open>None\<close> when they succeed.
\<close>

record io =
  notify_mail_error :: "string option"
  render_error :: "string option"
  ONEAUTHEN_ENABLED :: bool
  oneauthen_error :: "string option"
  final_mail_error :: "string option"

section \<open>The signing handlers\<close>

text \<open>The messages of the replies to a configuration without roles for the party.\<close>

definition no_customer_roles :: string where
  "no_customer_roles =
     ''Cannot determine required CUSTOMER roles from config.signatures. ''
     @ ''Please use role naming like 'customer_*'.''"

definition no_company_roles :: string where
  "no_company_roles =
     ''Cannot determine required COMPANY roles from config.signatures. ''
     @ ''Please use role naming like 'company_*'.''"

text \<open>The validation loop of both handlers: the first item that fails decides the reply.\<close>

fun validate_items :: "item list \<Rightarrow> reply option" where
  "validate_items [] = None"
| "validate_items (it # its) =
     (if \<not> validateRoleBasic (it_role it)
      then Some (Json 400 (''Invalid role: '' @ it_role it))
      else if \<not> isDataUrl (it_image it)
      then Some (Json 400 (''Invalid signature image for role: '' @ it_role it))
      else validate_items its)"

text \<open>
  The catch block around \<^verbatim>\<open>assertRolesAllowed\<close>: the message is cut at its colons, the
  second part is reported as the role and the third, cut at its commas, as the allowed
  roles. \<^verbatim>\<open>parts[i]\<close> beyond the end is undefined.
\<close>

definition part :: "string list \<Rightarrow> nat \<Rightarrow> jsval" where
  "part parts i = (if i < length parts then JStr (parts ! i) else JUndefined)"

text \<open>The text a template or a string method makes of a part: no conversion of these throws.\<close>

definition text_of :: "jsval \<Rightarrow> string" where
  "text_of v = (case js_String v of Inl e \<Rightarrow> [] | Inr t \<Rightarrow> t)"

definition role_not_allowed_reply :: "string \<Rightarrow> string \<Rightarrow> reply" where
  "role_not_allowed_reply who msg =
     (if startsWith msg ''ROLE_NOT_ALLOWED:''
      then let parts = str_split CHR '':'' msg
           in JsonAllowed 400 (''Role not allowed for '' @ who @ '': '' @ text_of (part parts 1))
                (filter (\<lambda>s. s \<noteq> [])
                   (map js_trim (str_split CHR '','' (text_of (js_or (part parts 2) (JStr []))))))
      else Json 400 msg)"

text \<open>The upserts of all items, then the completeness check, inside the transaction.\<close>

definition upsert_all :: "nat \<Rightarrow> nat \<Rightarrow> signer \<Rightarrow> item list \<Rightarrow> conn \<Rightarrow> conn" where
  "upsert_all now contractId signerRole items c =
     fold (conn_upsert now contractId signerRole) items c"

definition missing_after :: "conn \<Rightarrow> nat \<Rightarrow> string list \<Rightarrow> signer \<Rightarrow> string list" where
  "missing_after c contractId required signerRole =
     (let sigRows = getSignaturesByContractId (working c) contractId;
          map' = groupSignaturesToMap sigRows
      in assertSignedAll required map' signerRole)"

definition signed_count :: "conn \<Rightarrow> nat \<Rightarrow> signer \<Rightarrow> nat" where
  "signed_count c contractId signerRole =
     length (own (groupSignaturesToMap (getSignaturesByContractId (working c) contractId) signerRole))"

text \<open>
  \<^verbatim>\<open>POST /api/contracts/:documentId/customer-sign\<close>, from the validation of the items on:
  the reply and the connection as the handler leaves it.
\<close>

definition customer_sign_items ::
    "io \<Rightarrow> nat \<Rightarrow> contract \<Rightarrow> string list \<Rightarrow> item list \<Rightarrow> conn \<Rightarrow> reply \<times> conn" where
  "customer_sign_items env now contract' requiredCustomer items c =
     (case validate_items items of
        Some r \<Rightarrow> (r, rollback c)
      | None \<Rightarrow>
         (case assertRolesAllowed (map it_role items) requiredCustomer of
            Inl msg \<Rightarrow> (role_not_allowed_reply ''CUSTOMER'' msg, rollback c)
          | Inr u \<Rightarrow>
             let c1 = upsert_all now (id' contract') CUSTOMER items c;
                 missing = missing_after c1 (id' contract') requiredCustomer CUSTOMER
             in if missing \<noteq> []
                then (JsonPartial 200 ''Customer signed partially''
                        (signed_count c1 (id' contract') CUSTOMER) (length requiredCustomer) missing,
                      commit c1)
                else let c2 = commit (conn_update_status (id' contract') CUSTOMER_SIGNED c1)
                     in if company_email contract' \<noteq> None \<and> company_email contract' \<noteq> Some []
                        then (case notify_mail_error env of
                                None \<Rightarrow> (Json 200 ''Customer signed successfully'', c2)
                              | Some e \<Rightarrow> (JsonError 500 ''Customer sign failed'' e, rollback c2))
                        else (Json 200 ''Customer signed successfully'', c2)))"

definition customerSign ::
    "io \<Rightarrow> nat \<Rightarrow> database \<Rightarrow> string \<Rightarrow> payload option \<Rightarrow> reply \<times> conn" where
  "customerSign env now d documentId signatures' =
     (if signatures' = None then (Json 400 ''signatures required'', getConnection d)
      else case normalizeSignaturesPayload signatures' of
        Inl e \<Rightarrow> (Rejected e, getConnection d)
      | Inr items \<Rightarrow>
      if items = [] then (Json 400 ''signatures payload is empty'', getConnection d)
      else let c = beginTransaction (getConnection d)
      in case getContractByDocumentId (working c) documentId of
           None \<Rightarrow> (Json 404 ''Contract not found'', rollback c)
         | Some contract' \<Rightarrow>
            if status contract' = COMPLETED
            then (Json 409 ''Contract already completed'', rollback c)
            else if status contract' = CUSTOMER_SIGNED
            then (Json 409 ''Customer already signed'', rollback c)
            else case extractRequiredRolesFromConfig (config contract') of
                   Inl e \<Rightarrow> (JsonError 500 ''Customer sign failed'' e, rollback c)
                 | Inr requiredAll \<Rightarrow>
                    let split' = splitRolesBySigner requiredAll;
                        requiredCustomer = customer split'
                    in if requiredCustomer = []
                       then (Json 500 no_customer_roles, rollback c)
                       else customer_sign_items env now contract' requiredCustomer items c)"

text \<open>\<^verbatim>\<open>uniqEmails\<close>: the trimmed, non-empty addresses, each once. A null column is \<^const>\<open>None\<close>.\<close>

definition uniqEmails :: "string option list \<Rightarrow> string list" where
  "uniqEmails arr =
     new_Set (filter (\<lambda>s. s \<noteq> [])
       (map (\<lambda>s. js_trim (case s of None \<Rightarrow> [] | Some a \<Rightarrow> a)) arr))"

text \<open>
  \<^verbatim>\<open>POST /api/contracts/:documentId/company-sign\<close> in three parts. First the
  transaction: \<^const>\<open>Inl\<close> is the reply of a return inside it, \<^const>\<open>Inr\<close> the contract row
  (as read at its start) once COMPLETED is committed.
\<close>

definition company_sign_items ::
    "nat \<Rightarrow> contract \<Rightarrow> string list \<Rightarrow> item list \<Rightarrow> conn \<Rightarrow> (reply + contract) \<times> conn" where
  "company_sign_items now contract' requiredCompany items c =
     (case validate_items items of
        Some r \<Rightarrow> (Inl r, rollback c)
      | None \<Rightarrow>
         (case assertRolesAllowed (map it_role items) requiredCompany of
            Inl msg \<Rightarrow> (Inl (role_not_allowed_reply ''COMPANY'' msg), rollback c)
          | Inr u \<Rightarrow>
             let c1 = upsert_all now (id' contract') COMPANY items c;
                 missing = missing_after c1 (id' contract') requiredCompany COMPANY
             in if missing \<noteq> []
                then (Inl (JsonPartial 200 ''Company signed partially''
                        (signed_count c1 (id' contract') COMPANY) (length requiredCompany) missing),
                      commit c1)
                else (Inr contract', commit (conn_update_status (id' contract') COMPLETED c1))))"

definition company_transaction ::
    "nat \<Rightarrow> database \<Rightarrow> string \<Rightarrow> payload option \<Rightarrow> (reply + contract) \<times> conn" where
  "company_transaction now d documentId signatures' =
     (if signatures' = None then (Inl (Json 400 ''signatures required''), getConnection d)
      else case normalizeSignaturesPayload signatures' of
        Inl e \<Rightarrow> (Inl (Rejected e), getConnection d)
      | Inr items \<Rightarrow>
      if items = [] then (Inl (Json 400 ''signatures payload is empty''), getConnection d)
      else let c = beginTransaction (getConnection d)
      in case getContractByDocumentId (working c) documentId of
           None \<Rightarrow> (Inl (Json 404 ''Contract not found''), rollback c)
         | Some contract' \<Rightarrow>
            if status contract' \<noteq> CUSTOMER_SIGNED
            then (Inl (Json 400 ''Contract is not ready for company sign''), rollback c)
            else case extractRequiredRolesFromConfig (config contract') of
                   Inl e \<Rightarrow> (Inl (JsonError 500 ''Company sign failed'' e), rollback c)
                 | Inr requiredAll \<Rightarrow>
                    let split' = splitRolesBySigner requiredAll;
                        requiredCompany = company split'
                    in if requiredCompany = []
                       then (Inl (Json 500 no_company_roles), rollback c)
                       else company_sign_items now contract' requiredCompany items c)"

text \<open>
  Then, outside the transaction, the recipients, the check of the \<^verbatim>\<open>final_sent_at\<close> read
  at the start, the rendering, the external signature and the mail. \<^const>\<open>Inl\<close> is the
  reply of a return (a failing mail reaches the handler's catch block, whose rollback
  finds no open transaction); \<^const>\<open>Inr\<close> means the mail with the PDF has been sent.
\<close>

definition company_dispatch :: "io \<Rightarrow> contract \<Rightarrow> reply + unit" where
  "company_dispatch env contract' =
     (let toList = uniqEmails [company_email contract', customer_email contract']
      in if toList = [] then Inl (Json 200 ''Company signed successfully (no recipients)'')
      else if final_sent_at contract' \<noteq> None
      then Inl (Json 200 ''Company signed successfully (PDF already sent)'')
      else case render_error env of
             Some e \<Rightarrow> Inl (JsonError 500 ''Failed to render PDF'' e)
           | None \<Rightarrow>
              (case (if ONEAUTHEN_ENABLED env then oneauthen_error env else None) of
                 Some e \<Rightarrow> Inl (JsonError 500 ''Failed to sign PDF with OneAuthen'' e)
               | None \<Rightarrow>
                  (case final_mail_error env of
                     Some e \<Rightarrow> Inl (JsonError 500 ''Company sign failed'' e)
                   | None \<Rightarrow> Inr ())))"

text \<open>
  Last, on the pool: \<^verbatim>\<open>UPDATE contracts SET final_sent_at = CURRENT_TIMESTAMP WHERE id = ?
  AND final_sent_at IS NULL\<close>, and the reply by the number of rows it changed.
\<close>

definition mark_rows :: "nat \<Rightarrow> nat \<Rightarrow> contract list \<Rightarrow> contract list" where
  "mark_rows now contractId cs =
     map (\<lambda>c. if id' c = contractId \<and> final_sent_at c = None
               then c\<lparr>final_sent_at := Some now\<rparr> else c) cs"

definition affectedRows :: "nat \<Rightarrow> contract list \<Rightarrow> nat" where
  "affectedRows contractId cs =
     length (filter (\<lambda>c. id' c = contractId \<and> final_sent_at c = None) cs)"

definition company_mark_sent :: "io \<Rightarrow> nat \<Rightarrow> database \<Rightarrow> nat \<Rightarrow> reply \<times> database" where
  "company_mark_sent env now d contractId =
     (let d' = d\<lparr>tbl_contracts := mark_rows now contractId (tbl_contracts d)\<rparr>
      in if affectedRows contractId (tbl_contracts d) = 0
         then (Json 200 ''Company signed successfully (PDF emailed, final_sent_at was already set)'', d')
         else (Json 200 (''Company signed successfully (PDF emailed''
                 @ (if ONEAUTHEN_ENABLED env then '', OneAuthen signed'' else []) @ '')''), d'))"

text \<open>The handler run without anything in between: the reply and the tables after it.\<close>

definition companySign ::
    "io \<Rightarrow> nat \<Rightarrow> database \<Rightarrow> string \<Rightarrow> payload option \<Rightarrow> reply \<times> database" where
  "companySign env now d documentId signatures' =
     (case company_transaction now d documentId signatures' of
        (Inl r, c) \<Rightarrow> (r, committed c)
      | (Inr contract', c) \<Rightarrow>
         (case company_dispatch env contract' of
            Inl r \<Rightarrow> (r, committed c)
          | Inr u \<Rightarrow> company_mark_sent env now (committed c) (id' contract')))"

section \<open>The server as a transition system\<close>

text \<open>
  \<^verbatim>\<open>POST /api/contracts\<close> inserts a PENDING row. Modelled from the spec: the identifier
  of the row is generated and unique (here the successor of the largest one), the
  customer address and the final-sent timestamp start as null.
\<close>

definition fresh_id :: "contract list \<Rightarrow> nat" where
  "fresh_id cs = Suc (fold max (map id' cs) 0)"

definition createContract :: "database \<Rightarrow> string \<Rightarrow> config \<Rightarrow> string \<Rightarrow> database" where
  "createContract d documentId config' companyEmail =
     d\<lparr>tbl_contracts := tbl_contracts d @
         [\<lparr>id' = fresh_id (tbl_contracts d), document_id = documentId, config = config',
           status = PENDING, company_email = Some companyEmail, customer_email = None,
           final_sent_at = None\<rparr>]\<rparr>"

text \<open>
  \<^verbatim>\<open>POST /api/send-sign-email\<close> stores the customer's address in the contract found by
  document id; the tables are the same when there is none.
\<close>

definition set_customer_email :: "database \<Rightarrow> string \<Rightarrow> string \<Rightarrow> database" where
  "set_customer_email d documentId email =
     (case getContractByDocumentId d documentId of
        None \<Rightarrow> d
      | Some contract' \<Rightarrow>
         d\<lparr>tbl_contracts :=
             map (\<lambda>c. if id' c = id' contract' then c\<lparr>customer_email := Some (js_trim email)\<rparr> else c)
               (tbl_contracts d)\<rparr>)"

text \<open>
  The state of the server: the committed tables and the contracts of the company-sign
  calls that have mailed the PDF and not yet run their last UPDATE. A signing transaction
  is one step; another request can run between the mail and the UPDATE.
\<close>

record server =
  tables :: database
  mailed :: "nat list"

inductive step :: "server \<Rightarrow> server \<Rightarrow> bool" where
  create: "step s (s\<lparr>tables := createContract (tables s) documentId config' companyEmail\<rparr>)"
| send_sign_email: "step s (s\<lparr>tables := set_customer_email (tables s) documentId email\<rparr>)"
| customer_sign:
    "customerSign env now (tables s) documentId signatures' = (r, c) \<Longrightarrow>
     step s (s\<lparr>tables := committed c\<rparr>)"
| company_replied:
    "company_transaction now (tables s) documentId signatures' = (Inl r, c) \<Longrightarrow>
     step s (s\<lparr>tables := committed c\<rparr>)"
| company_stopped:
    "company_transaction now (tables s) documentId signatures' = (Inr contract', c) \<Longrightarrow>
     company_dispatch env contract' = Inl r \<Longrightarrow>
     step s (s\<lparr>tables := committed c\<rparr>)"
| company_mailed:
    "company_transaction now (tables s) documentId signatures' = (Inr contract', c) \<Longrightarrow>
     company_dispatch env contract' = Inr u \<Longrightarrow>
     step s \<lparr>tables = committed c, mailed = id' contract' # mailed s\<rparr>"
| company_marked:
    "contractId \<in> set (mailed s) \<Longrightarrow>
     step s \<lparr>tables = snd (company_mark_sent env now (tables s) contractId),
             mailed = remove1 contractId (mailed s)\<rparr>"

inductive reachable :: "server \<Rightarrow> bool" where
  start: "reachable \<lparr>tables = \<lparr>tbl_contracts = [], tbl_signatures = []\<rparr>, mailed = []\<rparr>"
| next_step: "reachable s \<Longrightarrow> step s s' \<Longrightarrow> reachable s'"

text \<open>The final-sent timestamp of the contract with an identifier; null also when there is none.\<close>

definition final_sent_of :: "database \<Rightarrow> nat \<Rightarrow> nat option" where
  "final_sent_of d contractId =
     (case find (\<lambda>c. id' c = contractId) (tbl_contracts d) of
        None \<Rightarrow> None
      | Some c \<Rightarrow> final_sent_at c)"

text \<open>The key of a signature row, unique in the table.\<close>

definition sig_key :: "sig_row \<Rightarrow> nat \<times> string" where
  "sig_key r = (contract_id r, role r)"

section \<open>Names used in the statements\<close>

text \<open>
  An element whose conversion throws: its role does, or its role gives nothing and its id
  does.
\<close>

definition elem_throws :: "sig_elem \<Rightarrow> bool" where
  "elem_throws s = (throws (elem_role s) \<or> (as_role (elem_role s) = None \<and> throws (elem_id s)))"

text \<open>
  The specification's wording of a role that is signed: the table holds a row of the
  contract for the role, stored for the party, with a truthy image.
\<close>

definition stored_image :: "database \<Rightarrow> nat \<Rightarrow> signer \<Rightarrow> string \<Rightarrow> bool" where
  "stored_image d contractId signerRole r =
     (\<exists>row \<in> set (tbl_signatures d).
        contract_id row = contractId \<and> role row = r \<and> signer_role row = signerRole
        \<and> truthy (signature_image row))"

text \<open>The connection after \<^verbatim>\<open>beginTransaction\<close> and \<^verbatim>\<open>rollback\<close> with no statement between them.\<close>

definition rolled_back :: "database \<Rightarrow> conn" where
  "rolled_back d = \<lparr>committed = d, working = d, statements = [BEGIN, ROLLBACK]\<rparr>"

text \<open>
  Sample data: a contract with the customer roles \<^verbatim>\<open>customer_a\<close> and \<^verbatim>\<open>customer_b\<close> (the
  second from an \<^verbatim>\<open>id\<close>) and the company role \<^verbatim>\<open>company_w\<close>, a signature row, and
  collaborators that all succeed.
\<close>

definition sample_image :: string where
  "sample_image = ''data:image/png;base64,AAAA''"

definition sample_config :: config where
  "sample_config = \<lparr>signatures = Some
     [SigObj (JStr ''customer_a'') JUndefined, SigObj JUndefined (JStr ''customer_b''),
      SigObj (JStr ''company_w'') JNull]\<rparr>"

definition sample_contract :: "status \<Rightarrow> contract" where
  "sample_contract st =
     \<lparr>id' = 1, document_id = ''DOC-1'', config = sample_config, status = st,
      company_email = Some ''office@company.test'', customer_email = Some ''ann@customer.test'',
      final_sent_at = None\<rparr>"

definition sample_row :: "string \<Rightarrow> signer \<Rightarrow> sig_row" where
  "sample_row r p =
     \<lparr>contract_id = 1, role = r, signature_image = JStr sample_image, signer_name = None,
      signer_position = None, signer_role = p, signed_at = 2\<rparr>"

definition sample_env :: io where
  "sample_env = \<lparr>notify_mail_error = None, render_error = None, ONEAUTHEN_ENABLED = False,
     oneauthen_error = None, final_mail_error = None\<rparr>"

section \<open>The role extractor: lemmas\<close>

lemma safeStr_eq:
  "safeStr v mx = (if throws v then Inl cannot_convert
     else Inr (case v of JUndefined \<Rightarrow> None | JNull \<Rightarrow> None
        | _ \<Rightarrow> (case js_String v of Inl e \<Rightarrow> None
             | Inr t \<Rightarrow> if js_trim t = [] then None
                        else Some (if length (js_trim t) > mx then take mx (js_trim t) else js_trim t))))"
  by (cases v rule: js_String.cases) (simp_all add: safeStr_def throws_def Let_def)

lemma safeStr_100: "safeStr v 100 = (if throws v then Inl cannot_convert else Inr (as_role v))"
  by (cases v rule: js_String.cases) (simp_all add: safeStr_def throws_def as_role_def Let_def)

lemma as_role_throws: "throws v \<Longrightarrow> as_role v = None"
  by (simp add: throws_def as_role_def)

lemma elem_required_eq:
  "elem_required e = (if elem_throws e then Inl cannot_convert else Inr (role_or_id e))"
  by (cases "as_role (elem_role e)")
     (auto simp: elem_required_def safeStr_100 elem_throws_def role_or_id_def as_role_throws)

lemma push_roles_eq:
  "push_roles roles sigs =
     (if \<exists>e \<in> set sigs. elem_throws e then Inl cannot_convert
      else Inr (roles @ List.map_filter role_or_id sigs))"
proof (induction sigs arbitrary: roles)
  case Nil
  then show ?case by (simp add: List.map_filter_simps)
next
  case (Cons e sigs)
  show ?case
  proof (cases "elem_throws e")
    case True
    then show ?thesis by (simp add: elem_required_eq)
  next
    case False
    then show ?thesis
      by (cases "role_or_id e") (simp_all add: elem_required_eq Cons.IH List.map_filter_simps)
  qed
qed

lemma set_add_all_eq:
  "set_add_all seen xs = seen @ filter (\<lambda>x. x \<notin> set seen) (first_occurrences xs)"
proof (induction xs arbitrary: seen)
  case Nil
  then show ?case by simp
next
  case (Cons x xs)
  show ?case
  proof (cases "x \<in> set seen")
    case True
    have "filter (\<lambda>y. y \<notin> set seen) (removeAll x (first_occurrences xs))
        = filter (\<lambda>y. y \<notin> set seen) (first_occurrences xs)"
      using True by (simp add: removeAll_filter_not_eq) (metis (mono_tags, lifting) filter_cong)
    with True Cons.IH [of seen] show ?thesis by simp
  next
    case False
    have "filter (\<lambda>y. y \<notin> set (seen @ [x])) (first_occurrences xs)
        = filter (\<lambda>y. y \<notin> set seen) (removeAll x (first_occurrences xs))"
      by (simp add: removeAll_filter_not_eq) (metis (mono_tags, lifting) filter_cong)
    with False Cons.IH [of "seen @ [x]"] show ?thesis by simp
  qed
qed

lemma new_Set_first_occurrences: "new_Set xs = first_occurrences xs"
  by (simp add: new_Set_def set_add_all_eq)

lemma set_first_occurrences [simp]: "set (first_occurrences xs) = set xs"
  by (induction xs) auto

lemma distinct_first_occurrences [simp]: "distinct (first_occurrences xs)"
  by (induction xs) (auto simp: distinct_removeAll)

lemma extract_eq:
  "extractRequiredRolesFromConfig cfg =
     (if \<exists>e \<in> set (case signatures cfg of Some a \<Rightarrow> a | None \<Rightarrow> []). elem_throws e
      then Inl cannot_convert
      else Inr (first_occurrences
             (List.map_filter role_or_id (case signatures cfg of Some a \<Rightarrow> a | None \<Rightarrow> []))))"
  by (simp add: extractRequiredRolesFromConfig_def push_roles_eq new_Set_first_occurrences)

lemma split_loop_eq:
  "split_loop acc rs =
     \<lparr>customer = customer acc @ filter (\<lambda>r. str_includes (toLowerCase r) ''customer'') rs,
      company = company acc @ filter (\<lambda>r. \<not> str_includes (toLowerCase r) ''customer''
                    \<and> str_includes (toLowerCase r) ''company'') rs\<rparr>"
  by (induction rs arbitrary: acc) (auto simp: Let_def)





section \<open>The signature store: lemmas\<close>

lemma upsert_row_has:
  "\<exists>row \<in> set (upsert_row now cid ro p img nm pos rows).
     contract_id row = cid \<and> role row = ro \<and> signature_image row = img \<and> signer_name row = nm
     \<and> signer_position row = pos \<and> signed_at row = now"
proof (cases "\<exists>r \<in> set rows. contract_id r = cid \<and> role r = ro")
  case True
  then obtain r where r: "r \<in> set rows" "contract_id r = cid" "role r = ro" by blast
  let ?r' = "r\<lparr>signature_image := img, signer_name := nm, signer_position := pos, signed_at := now\<rparr>"
  have "?r' \<in> set (upsert_row now cid ro p img nm pos rows)"
    using True r by (simp add: upsert_row_def image_iff) (rule bexI [of _ r], simp_all)
  then show ?thesis using r by (intro bexI [of _ ?r']) simp_all
next
  case False
  then show ?thesis by (auto simp: upsert_row_def)
qed

lemma upsert_row_keeps:
  "row \<in> set rows \<Longrightarrow> \<not> (contract_id row = cid \<and> role row = ro) \<Longrightarrow>
   row \<in> set (upsert_row now cid ro p img nm pos rows)"
  by (auto simp: upsert_row_def)

lemma upsert_row_keys:
  "map sig_key (upsert_row now cid ro p img nm pos rows) =
     (if (cid, ro) \<in> set (map sig_key rows) then map sig_key rows else map sig_key rows @ [(cid, ro)])"
  by (auto simp: upsert_row_def sig_key_def)

lemma upsert_row_distinct:
  "distinct (map sig_key rows) \<Longrightarrow> distinct (map sig_key (upsert_row now cid ro p img nm pos rows))"
  by (simp add: upsert_row_keys)

lemma filter_key_singleton:
  "distinct (map sig_key rows) \<Longrightarrow> row \<in> set rows \<Longrightarrow>
   filter (\<lambda>r. sig_key r = sig_key row) rows = [row]"
proof (induction rows)
  case Nil
  then show ?case by simp
next
  case (Cons a rows)
  show ?case
  proof (cases "a = row")
    case True
    from Cons.prems True have "sig_key row \<notin> sig_key ` set rows" by simp
    then have "filter (\<lambda>r. sig_key r = sig_key row) rows = []"
      unfolding filter_empty_conv by (metis image_eqI)
    with True show ?thesis by simp
  next
    case False
    with Cons have "sig_key a \<noteq> sig_key row" by force
    with Cons False show ?thesis by auto
  qed
qed

lemma filter_role_map_other:
  "ro \<noteq> r \<Longrightarrow>
   filter (\<lambda>x. role x = r)
     (map (\<lambda>x. if contract_id x = cid \<and> role x = ro
                then x\<lparr>signature_image := img, signer_name := nm, signer_position := pos,
                       signed_at := now\<rparr>
                else x) rows)
   = filter (\<lambda>x. role x = r) rows"
  by (induction rows) auto

lemma upsert_row_other_role:
  "ro \<noteq> r \<Longrightarrow>
   filter (\<lambda>x. role x = r) (upsert_row now cid ro p img nm pos rows) = filter (\<lambda>x. role x = r) rows"
  unfolding upsert_row_def by (simp add: filter_role_map_other)

lemma filter_role_contract:
  "filter (\<lambda>x. role x = r) (filter (\<lambda>x. contract_id x = k) rows)
     = filter (\<lambda>x. contract_id x = k) (filter (\<lambda>x. role x = r) rows)"
  by (induction rows) simp_all

lemma roles_allowed_loop_ok: "roles_allowed_loop allowed rs = Inr () \<longleftrightarrow> set rs \<subseteq> set allowed"
  by (induction rs) auto

lemma assertRolesAllowed_ok:
  "assertRolesAllowed payloadRoles allowedRoles = Inr () \<longleftrightarrow> set payloadRoles \<subseteq> set allowedRoles"
  by (simp add: assertRolesAllowed_def roles_allowed_loop_ok new_Set_first_occurrences)

lemma find_append:
  "find P (xs @ ys) = (case find P xs of Some x \<Rightarrow> Some x | None \<Rightarrow> find P ys)"
  by (induction xs) simp_all

lemma lookup_assign:
  "lookup (assign m x) r = (if role x = r then Some x else lookup m r)"
  by (auto simp: lookup_def assign_def AList.update_conv')

lemma group_loop_last:
  "lookup (group_loop out rows q) r =
     (case find (\<lambda>x. role x = r \<and> signer_role x = q) (rev rows) of
        Some x \<Rightarrow> Some x
      | None \<Rightarrow> lookup (out q) r)"
proof (induction rows arbitrary: out)
  case Nil
  then show ?case by simp
next
  case (Cons x rows)
  let ?P = "\<lambda>x. role x = r \<and> signer_role x = q"
  let ?out = "out(signer_role x := assign (out (signer_role x)) x)"
  have step: "lookup (?out q) r = (if ?P x then Some x else lookup (out q) r)"
    by (simp add: lookup_assign)
  have "lookup (group_loop out (x # rows) q) r =
      (case find ?P (rev rows) of Some y \<Rightarrow> Some y | None \<Rightarrow> lookup (?out q) r)"
    unfolding group_loop.simps by (rule Cons.IH [of ?out])
  also have "\<dots> = (case find ?P (rev rows) of Some y \<Rightarrow> Some y
      | None \<Rightarrow> (if ?P x then Some x else lookup (out q) r))"
    by (simp only: step)
  also have "\<dots> = (case find ?P (rev (x # rows)) of Some y \<Rightarrow> Some y | None \<Rightarrow> lookup (out q) r)"
    by (auto simp: find_append split: option.split)
  finally show ?case .
qed

lemma lookup_empty: "lookup \<lparr>own = [], proto = None\<rparr> r = None"
  by (simp add: lookup_def)

lemma has_image_last:
  "has_image (groupSignaturesToMap rows) q r =
     (case find (\<lambda>x. role x = r \<and> signer_role x = q) (rev rows) of
        None \<Rightarrow> False
      | Some x \<Rightarrow> truthy (signature_image x))"
  unfolding has_image_def groupSignaturesToMap_def group_loop_last lookup_empty
  by (simp split: option.split)

lemma find_rev_filter:
  "(\<And>x. P x \<Longrightarrow> Q x) \<Longrightarrow> find P (rev (filter Q xs)) = find P (rev xs)"
proof (induction xs)
  case Nil
  then show ?case by simp
next
  case (Cons x xs)
  then have ih: "find P (rev (filter Q xs)) = find P (rev xs)" by simp
  show ?case
  proof (cases "Q x")
    case True
    then show ?thesis by (simp add: find_append ih)
  next
    case False
    with Cons.prems have "\<not> P x" by blast
    with False show ?thesis by (simp add: find_append ih split: option.split)
  qed
qed

lemma has_image_filter:
  "has_image (groupSignaturesToMap rows) q r
     = has_image (groupSignaturesToMap (filter (\<lambda>x. role x = r) rows)) q r"
  unfolding has_image_last
  using find_rev_filter [of "\<lambda>x. role x = r \<and> signer_role x = q" "\<lambda>x. role x = r" rows]
  by simp

lemma has_image_upsert_other:
  assumes "ro \<noteq> r"
  shows "has_image (groupSignaturesToMap
            (getSignaturesByContractId (upsertSignature now d cid ro p img nm pos) k)) q r
       = has_image (groupSignaturesToMap (getSignaturesByContractId d k)) q r"
proof -
  let ?new = "getSignaturesByContractId (upsertSignature now d cid ro p img nm pos) k"
  let ?old = "getSignaturesByContractId d k"
  have u: "tbl_signatures (upsertSignature now d cid ro p img nm pos)
      = upsert_row now cid ro p img nm pos (tbl_signatures d)"
    by (simp add: upsertSignature_def)
  have eq: "filter (\<lambda>x. role x = r) ?new = filter (\<lambda>x. role x = r) ?old"
    unfolding getSignaturesByContractId_def u filter_role_contract
      upsert_row_other_role [OF assms] by (rule refl)
  have "has_image (groupSignaturesToMap ?new) q r
      = has_image (groupSignaturesToMap (filter (\<lambda>x. role x = r) ?new)) q r"
    by (rule has_image_filter)
  also have "\<dots> = has_image (groupSignaturesToMap (filter (\<lambda>x. role x = r) ?old)) q r"
    by (simp only: eq)
  also have "\<dots> = has_image (groupSignaturesToMap ?old) q r"
    by (rule has_image_filter [symmetric])
  finally show ?thesis .
qed

lemma has_image_stored:
  assumes "distinct (map sig_key (tbl_signatures d))"
  shows "has_image (groupSignaturesToMap (getSignaturesByContractId d cid)) p r
       = stored_image d cid p r"
proof -
  let ?rows = "getSignaturesByContractId d cid"
  let ?P = "\<lambda>x. role x = r \<and> signer_role x = p"
  have uniq: "x = y" if "x \<in> set ?rows" "y \<in> set ?rows" "role x = role y" for x y
  proof -
    from that have "x \<in> set (tbl_signatures d)" "y \<in> set (tbl_signatures d)" "sig_key x = sig_key y"
      by (auto simp: getSignaturesByContractId_def sig_key_def)
    with assms show ?thesis by (meson distinct_map inj_onD)
  qed
  show ?thesis
  proof (cases "find ?P (rev ?rows)")
    case None
    then have "\<not> (\<exists>x \<in> set ?rows. ?P x)" by (simp add: find_None_iff)
    then have "\<not> stored_image d cid p r"
      by (auto simp: stored_image_def getSignaturesByContractId_def)
    with None show ?thesis by (simp add: has_image_last)
  next
    case (Some x)
    then have x: "x \<in> set ?rows" "role x = r" "signer_role x = p"
      by (auto simp: find_Some_iff) (metis in_set_conv_nth length_rev set_rev)+
    have "stored_image d cid p r = truthy (signature_image x)"
    proof
      assume "stored_image d cid p r"
      then obtain y where y: "y \<in> set ?rows" "role y = r" "truthy (signature_image y)"
        by (auto simp: stored_image_def getSignaturesByContractId_def)
      with x uniq [of x y] show "truthy (signature_image x)" by simp
    next
      assume "truthy (signature_image x)"
      with x show "stored_image d cid p r"
        by (auto simp: stored_image_def getSignaturesByContractId_def)
    qed
    with Some show ?thesis by (simp add: has_image_last)
  qed
qed



section \<open>The signing handlers: lemmas\<close>

lemma begin_conn:
  "beginTransaction (getConnection d) = \<lparr>committed = d, working = d, statements = [BEGIN]\<rparr>"
  by (simp add: beginTransaction_def getConnection_def)

lemma rollback_begin: "rollback (beginTransaction (getConnection d)) = rolled_back d"
  by (simp add: begin_conn rollback_def rolled_back_def)

lemma conn_upsert_fields:
  "committed (conn_upsert now cid p it c) = committed c"
  "statements (conn_upsert now cid p it c) = statements c @ [UPSERT cid (it_role it) p]"
  "tbl_contracts (working (conn_upsert now cid p it c)) = tbl_contracts (working c)"
  "tbl_signatures (working (conn_upsert now cid p it c)) =
     upsert_row now cid (it_role it) p (it_image it) (it_name it) (it_position it)
       (tbl_signatures (working c))"
  by (simp_all add: conn_upsert_def upsertSignature_def)

lemma upsert_all_Nil: "upsert_all now cid p [] c = c"
  by (simp add: upsert_all_def)

lemma upsert_all_Cons:
  "upsert_all now cid p (it # its) c = upsert_all now cid p its (conn_upsert now cid p it c)"
  by (simp add: upsert_all_def)

lemma upsert_all_committed: "committed (upsert_all now cid p items c) = committed c"
  by (induction items arbitrary: c) (simp_all add: upsert_all_Nil upsert_all_Cons conn_upsert_fields)

lemma upsert_all_statements:
  "statements (upsert_all now cid p items c) = statements c @ map (\<lambda>it. UPSERT cid (it_role it) p) items"
  by (induction items arbitrary: c) (simp_all add: upsert_all_Nil upsert_all_Cons conn_upsert_fields)

lemma upsert_all_contracts:
  "tbl_contracts (working (upsert_all now cid p items c)) = tbl_contracts (working c)"
  by (induction items arbitrary: c) (simp_all add: upsert_all_Nil upsert_all_Cons conn_upsert_fields)

lemma conn_upsert_working:
  "working (conn_upsert now cid p it c) =
     upsertSignature now (working c) cid (it_role it) p (it_image it) (it_name it) (it_position it)"
  by (simp add: conn_upsert_def)

lemma upsert_all_has_image_other:
  "r \<notin> it_role ` set items \<Longrightarrow>
   has_image (groupSignaturesToMap (getSignaturesByContractId (working (upsert_all now cid p items c)) k)) q r
   = has_image (groupSignaturesToMap (getSignaturesByContractId (working c) k)) q r"
proof (induction items arbitrary: c)
  case Nil
  then show ?case by (simp add: upsert_all_Nil)
next
  case (Cons it items)
  from Cons.prems have ne: "it_role it \<noteq> r" and rest: "r \<notin> it_role ` set items" by auto
  show ?case
    unfolding upsert_all_Cons Cons.IH [OF rest] conn_upsert_working
    by (rule has_image_upsert_other [OF ne])
qed

lemma upsert_all_rows:
  "distinct (map it_role items) \<Longrightarrow> it \<in> set items \<Longrightarrow>
   \<exists>row \<in> set (tbl_signatures (working (upsert_all now cid p items c))).
     contract_id row = cid \<and> role row = it_role it \<and> signature_image row = it_image it
     \<and> signed_at row = now"
proof (induction items arbitrary: c)
  case Nil
  then show ?case by simp
next
  case (Cons a items)
  show ?case
  proof (cases "it \<in> set items")
    case True
    with Cons show ?thesis by (simp add: upsert_all_Cons)
  next
    case False
    with Cons.prems have eq: "it = a" and fresh: "it_role a \<notin> it_role ` set items" by auto
    have keep: "\<exists>row \<in> set (tbl_signatures (working (upsert_all now cid p its c'))).
        contract_id row = cid \<and> role row = ro \<and> signature_image row = img \<and> signed_at row = now"
      if "\<exists>row \<in> set (tbl_signatures (working c')).
        contract_id row = cid \<and> role row = ro \<and> signature_image row = img \<and> signed_at row = now"
        and "ro \<notin> it_role ` set its" for its c' ro img
      using that
    proof (induction its arbitrary: c')
      case Nil
      then show ?case by (simp add: upsert_all_Nil)
    next
      case (Cons b its)
      from Cons.prems(1) obtain row where row: "row \<in> set (tbl_signatures (working c'))"
          "contract_id row = cid" "role row = ro" "signature_image row = img" "signed_at row = now"
        by blast
      from Cons.prems(2) have nb: "it_role b \<noteq> ro" and rest: "ro \<notin> it_role ` set its" by auto
      have "row \<in> set (tbl_signatures (working (conn_upsert now cid p b c')))"
        unfolding conn_upsert_fields using row(1) nb row(3) by (intro upsert_row_keeps) auto
      with row have "\<exists>row \<in> set (tbl_signatures (working (conn_upsert now cid p b c'))).
          contract_id row = cid \<and> role row = ro \<and> signature_image row = img \<and> signed_at row = now"
        by blast
      from Cons.IH [OF this rest] show ?case by (simp add: upsert_all_Cons)
    qed
    have first: "\<exists>row \<in> set (tbl_signatures (working (conn_upsert now cid p a c))).
        contract_id row = cid \<and> role row = it_role a \<and> signature_image row = it_image a
        \<and> signed_at row = now"
      unfolding conn_upsert_fields
      using upsert_row_has [of now cid "it_role a" p "it_image a" "it_name a" "it_position a"
          "tbl_signatures (working c)"] by blast
    from keep [OF first fresh] show ?thesis by (simp add: upsert_all_Cons eq)
  qed
qed

lemma normalize_loop_roles:
  "normalize_loop out entries = Inr items \<Longrightarrow> map it_role items = map it_role out @ map fst entries"
proof (induction entries arbitrary: out)
  case Nil
  then show ?case by simp
next
  case (Cons kv entries)
  from Cons.prems obtain it where it: "normalize_entry kv = Inr it"
      and rest: "normalize_loop (out @ [it]) entries = Inr items"
    by (cases "normalize_entry kv") auto
  from it have "it_role it = fst kv"
    by (auto simp: normalize_entry_def Let_def split: pval.splits sum.splits)
  with Cons.IH [OF rest] show ?case by simp
qed

lemma it_role_normalize:
  "normalizeSignaturesPayload (Some sigs) = Inr items \<Longrightarrow> map it_role items = map fst sigs"
  using normalize_loop_roles [of "[]" sigs items] by (simp add: normalizeSignaturesPayload_def)

lemma commit_fields:
  "committed (commit c) = working c" "statements (commit c) = statements c @ [COMMIT]"
  by (simp_all add: commit_def)

lemma begin_fields:
  "committed (beginTransaction (getConnection d)) = d"
  "working (beginTransaction (getConnection d)) = d"
  "statements (beginTransaction (getConnection d)) = [BEGIN]"
  by (simp_all add: begin_conn)

lemma rolled_back_fields [simp]:
  "committed (rolled_back d) = d" "working (rolled_back d) = d"
  "statements (rolled_back d) = [BEGIN, ROLLBACK]"
  by (simp_all add: rolled_back_def)

lemma customerSign_pending:
  assumes "normalizeSignaturesPayload (Some sigs) = Inr items"
      and "items \<noteq> []"
      and "getContractByDocumentId d documentId = Some ct"
      and "status ct = PENDING"
      and "extractRequiredRolesFromConfig (config ct) = Inr roles"
  shows "customerSign env now d documentId (Some sigs) =
     (if customer (splitRolesBySigner roles) = []
      then (Json 500 no_customer_roles, rolled_back d)
      else customer_sign_items env now ct (customer (splitRolesBySigner roles)) items
             (beginTransaction (getConnection d)))"
  using assms by (simp add: customerSign_def Let_def begin_fields rollback_begin)

lemma customerSign_not_pending:
  assumes "normalizeSignaturesPayload (Some sigs) = Inr items"
      and "items \<noteq> []"
      and "getContractByDocumentId d documentId = Some ct"
      and "status ct \<noteq> PENDING"
  shows "customerSign env now d documentId (Some sigs) =
     (Json 409 (if status ct = COMPLETED then ''Contract already completed''
                else ''Customer already signed''), rolled_back d)"
  using assms
  by (cases "status ct") (simp_all add: customerSign_def Let_def begin_fields rollback_begin)

lemma customerSign_throws:
  assumes "normalizeSignaturesPayload (Some sigs) = Inr items"
      and "items \<noteq> []"
      and "getContractByDocumentId d documentId = Some ct"
      and "status ct = PENDING"
      and "extractRequiredRolesFromConfig (config ct) = Inl e"
  shows "customerSign env now d documentId (Some sigs) =
     (JsonError 500 ''Customer sign failed'' e, rolled_back d)"
  using assms by (simp add: customerSign_def Let_def begin_fields rollback_begin)

lemma company_transaction_signed:
  assumes "normalizeSignaturesPayload (Some sigs) = Inr items"
      and "items \<noteq> []"
      and "getContractByDocumentId d documentId = Some ct"
      and "status ct = CUSTOMER_SIGNED"
      and "extractRequiredRolesFromConfig (config ct) = Inr roles"
  shows "company_transaction now d documentId (Some sigs) =
     (if company (splitRolesBySigner roles) = []
      then (Inl (Json 500 no_company_roles), rolled_back d)
      else company_sign_items now ct (company (splitRolesBySigner roles)) items
             (beginTransaction (getConnection d)))"
  using assms by (simp add: company_transaction_def Let_def begin_fields rollback_begin)

lemma company_transaction_not_signed:
  assumes "normalizeSignaturesPayload (Some sigs) = Inr items"
      and "items \<noteq> []"
      and "getContractByDocumentId d documentId = Some ct"
      and "status ct \<noteq> CUSTOMER_SIGNED"
  shows "company_transaction now d documentId (Some sigs) =
     (Inl (Json 400 ''Contract is not ready for company sign''), rolled_back d)"
  using assms by (simp add: company_transaction_def Let_def begin_fields rollback_begin)

lemma company_transaction_throws:
  assumes "normalizeSignaturesPayload (Some sigs) = Inr items"
      and "items \<noteq> []"
      and "getContractByDocumentId d documentId = Some ct"
      and "status ct = CUSTOMER_SIGNED"
      and "extractRequiredRolesFromConfig (config ct) = Inl e"
  shows "company_transaction now d documentId (Some sigs) =
     (Inl (JsonError 500 ''Company sign failed'' e), rolled_back d)"
  using assms by (simp add: company_transaction_def Let_def begin_fields rollback_begin)

lemma validate_items_status: "validate_items items = Some r \<Longrightarrow> http_status r = Some 400"
  by (induction items) (auto split: if_splits)

lemma role_not_allowed_status: "http_status (role_not_allowed_reply who msg) = Some 400"
  by (simp add: role_not_allowed_reply_def Let_def)

lemma customer_sign_items_bad:
  assumes "validate_items items \<noteq> None \<or> assertRolesAllowed (map it_role items) required \<noteq> Inr ()"
  shows "http_status (fst (customer_sign_items env now ct required items c)) = Some 400
       \<and> snd (customer_sign_items env now ct required items c) = rollback c"
proof (cases "validate_items items")
  case (Some r)
  then show ?thesis by (simp add: customer_sign_items_def validate_items_status)
next
  case None
  with assms obtain msg where "assertRolesAllowed (map it_role items) required = Inl msg"
    by (cases "assertRolesAllowed (map it_role items) required") auto
  with None show ?thesis by (simp add: customer_sign_items_def role_not_allowed_status)
qed

lemma company_sign_items_bad:
  assumes "validate_items items \<noteq> None \<or> assertRolesAllowed (map it_role items) required \<noteq> Inr ()"
  shows "(\<exists>r. fst (company_sign_items now ct required items c) = Inl r \<and> http_status r = Some 400)
       \<and> snd (company_sign_items now ct required items c) = rollback c"
proof (cases "validate_items items")
  case (Some r)
  then show ?thesis by (simp add: company_sign_items_def validate_items_status)
next
  case None
  with assms obtain msg where "assertRolesAllowed (map it_role items) required = Inl msg"
    by (cases "assertRolesAllowed (map it_role items) required") auto
  with None show ?thesis by (simp add: company_sign_items_def role_not_allowed_status)
qed

lemma companySign_Inl:
  "company_transaction now d documentId sigs = (Inl r, c) \<Longrightarrow>
   companySign env now d documentId sigs = (r, committed c)"
  by (simp add: companySign_def)



lemma customerSign_upsert_valid:
  assumes "UPSERT k r p \<in> set (statements (snd (customerSign env now d documentId sigs)))"
  shows "\<exists>items ct roles. normalizeSignaturesPayload sigs = Inr items
       \<and> validate_items items = None
       \<and> getContractByDocumentId d documentId = Some ct \<and> status ct = PENDING
       \<and> extractRequiredRolesFromConfig (config ct) = Inr roles
       \<and> assertRolesAllowed (map it_role items) (customer (splitRolesBySigner roles)) = Inr ()"
proof (cases sigs)
  case None
  with assms show ?thesis by (simp add: customerSign_def getConnection_def)
next
  case (Some entries)
  note sigs = this
  show ?thesis
  proof (cases "normalizeSignaturesPayload (Some entries)")
    case (Inl e)
    with assms sigs show ?thesis by (simp add: customerSign_def getConnection_def)
  next
    case (Inr items)
    note norm = this
    show ?thesis
    proof (cases "items = []")
      case True
      with assms sigs norm show ?thesis by (simp add: customerSign_def getConnection_def)
    next
      case ne: False
      show ?thesis
      proof (cases "getContractByDocumentId d documentId")
        case None
        with assms sigs norm ne show ?thesis
          by (simp add: customerSign_def Let_def begin_fields rollback_begin)
      next
        case (Some ct)
        note found = this
        show ?thesis
        proof (cases "status ct = PENDING")
          case False
          from assms show ?thesis
            unfolding sigs customerSign_not_pending [OF norm ne found False] by simp
        next
          case pending: True
          show ?thesis
          proof (cases "extractRequiredRolesFromConfig (config ct)")
            case (Inl e)
            from assms show ?thesis
              unfolding sigs customerSign_throws [OF norm ne found pending Inl] by simp
          next
            case (Inr roles)
            let ?req = "customer (splitRolesBySigner roles)"
            let ?c = "beginTransaction (getConnection d)"
            show ?thesis
            proof (cases "?req = []")
              case True
              from assms show ?thesis
                unfolding sigs customerSign_pending [OF norm ne found pending Inr]
                using True by simp
            next
              case False
              with assms have up: "UPSERT k r p \<in> set (statements (snd
                  (customer_sign_items env now ct ?req items ?c)))"
                unfolding sigs customerSign_pending [OF norm ne found pending Inr] by simp
              have "\<not> (validate_items items \<noteq> None
                  \<or> assertRolesAllowed (map it_role items) ?req \<noteq> Inr ())"
              proof
                assume "validate_items items \<noteq> None
                  \<or> assertRolesAllowed (map it_role items) ?req \<noteq> Inr ()"
                from customer_sign_items_bad [OF this, of env now ct ?c] up
                show False by (simp add: rollback_begin)
              qed
              with found pending norm Inr show ?thesis unfolding sigs by simp
            qed
          qed
        qed
      qed
    qed
  qed
qed

lemma company_transaction_upsert_valid:
  assumes "UPSERT k r p \<in> set (statements (snd (company_transaction now d documentId sigs)))"
  shows "\<exists>items ct roles. normalizeSignaturesPayload sigs = Inr items
       \<and> validate_items items = None
       \<and> getContractByDocumentId d documentId = Some ct \<and> status ct = CUSTOMER_SIGNED
       \<and> extractRequiredRolesFromConfig (config ct) = Inr roles
       \<and> assertRolesAllowed (map it_role items) (company (splitRolesBySigner roles)) = Inr ()"
proof (cases sigs)
  case None
  with assms show ?thesis by (simp add: company_transaction_def getConnection_def)
next
  case (Some entries)
  note sigs = this
  show ?thesis
  proof (cases "normalizeSignaturesPayload (Some entries)")
    case (Inl e)
    with assms sigs show ?thesis by (simp add: company_transaction_def getConnection_def)
  next
    case (Inr items)
    note norm = this
    show ?thesis
    proof (cases "items = []")
      case True
      with assms sigs norm show ?thesis by (simp add: company_transaction_def getConnection_def)
    next
      case ne: False
      show ?thesis
      proof (cases "getContractByDocumentId d documentId")
        case None
        with assms sigs norm ne show ?thesis
          by (simp add: company_transaction_def Let_def begin_fields rollback_begin)
      next
        case (Some ct)
        note found = this
        show ?thesis
        proof (cases "status ct = CUSTOMER_SIGNED")
          case False
          from assms show ?thesis
            unfolding sigs company_transaction_not_signed [OF norm ne found False] by simp
        next
          case signed: True
          show ?thesis
          proof (cases "extractRequiredRolesFromConfig (config ct)")
            case (Inl e)
            from assms show ?thesis
              unfolding sigs company_transaction_throws [OF norm ne found signed Inl] by simp
          next
            case (Inr roles)
            let ?req = "company (splitRolesBySigner roles)"
            let ?c = "beginTransaction (getConnection d)"
            show ?thesis
            proof (cases "?req = []")
              case True
              from assms show ?thesis
                unfolding sigs company_transaction_signed [OF norm ne found signed Inr]
                using True by simp
            next
              case False
              with assms have up: "UPSERT k r p \<in> set (statements (snd
                  (company_sign_items now ct ?req items ?c)))"
                unfolding sigs company_transaction_signed [OF norm ne found signed Inr] by simp
              have "\<not> (validate_items items \<noteq> None
                  \<or> assertRolesAllowed (map it_role items) ?req \<noteq> Inr ())"
              proof
                assume "validate_items items \<noteq> None
                  \<or> assertRolesAllowed (map it_role items) ?req \<noteq> Inr ()"
                from company_sign_items_bad [OF this, of now ct ?c] up
                show False by (simp add: rollback_begin)
              qed
              with found signed norm Inr show ?thesis unfolding sigs by simp
            qed
          qed
        qed
      qed
    qed
  qed
qed

lemma sample_found:
  "getContractByDocumentId \<lparr>tbl_contracts = [sample_contract st], tbl_signatures = rows\<rparr> ''DOC-1''
     = Some (sample_contract st)"
  by (simp add: getContractByDocumentId_def sample_contract_def)

lemma sample_roles:
  "extractRequiredRolesFromConfig (config (sample_contract st))
     = Inr [''customer_a'', ''customer_b'', ''company_w'']"
  by (simp add: sample_contract_def) code_simp

lemma sample_required:
  "customer (splitRolesBySigner [''customer_a'', ''customer_b'', ''company_w''])
     = [''customer_a'', ''customer_b'']"
  "company (splitRolesBySigner [''customer_a'', ''customer_b'', ''company_w'']) = [''company_w'']"
  by code_simp+

lemma sample_status: "status (sample_contract st) = st"
  by (simp add: sample_contract_def)

lemma normalize_strings:
  "normalizeSignaturesPayload (Some (map (\<lambda>(k, s). (k, PString s)) entries)) =
     Inr (map (\<lambda>(k, s). \<lparr>it_role = k, it_image = JStr s, it_name = None, it_position = None\<rparr>) entries)"
proof -
  have "normalize_loop out (map (\<lambda>(k, s). (k, PString s)) entries) =
     Inr (out @ map (\<lambda>(k, s). \<lparr>it_role = k, it_image = JStr s, it_name = None,
        it_position = None\<rparr>) entries)" for out
    by (induction entries arbitrary: out) (auto simp: normalize_entry_def)
  then show ?thesis by (simp add: normalizeSignaturesPayload_def)
qed

lemma validate_items_Nil_iff: "validate_items items \<noteq> None \<Longrightarrow> items \<noteq> []"
  by auto

lemma not_allowed_ne: "assertRolesAllowed (map it_role items) required \<noteq> Inr () \<Longrightarrow> items \<noteq> []"
  by (auto simp: assertRolesAllowed_ok)

lemma customerSign_bad:
  assumes norm: "normalizeSignaturesPayload sigs = Inr items"
      and bad: "validate_items items \<noteq> None
         \<or> (\<exists>ct roles. getContractByDocumentId d documentId = Some ct
              \<and> extractRequiredRolesFromConfig (config ct) = Inr roles
              \<and> assertRolesAllowed (map it_role items) (customer (splitRolesBySigner roles)) \<noteq> Inr ())"
  shows "snd (customerSign env now d documentId sigs) = rolled_back d"
proof -
  from bad have ne: "items \<noteq> []" using validate_items_Nil_iff not_allowed_ne by blast
  with norm obtain entries where sigs: "sigs = Some entries"
    by (cases sigs) (auto simp: normalizeSignaturesPayload_def)
  note norm' = norm [unfolded sigs]
  show ?thesis
  proof (cases "getContractByDocumentId d documentId")
    case None
    with norm' ne show ?thesis
      by (simp add: sigs customerSign_def Let_def begin_fields rollback_begin)
  next
    case (Some ct)
    note found = this
    show ?thesis
    proof (cases "status ct = PENDING")
      case False
      show ?thesis unfolding sigs customerSign_not_pending [OF norm' ne found False] by simp
    next
      case pending: True
      show ?thesis
      proof (cases "extractRequiredRolesFromConfig (config ct)")
        case (Inl e)
        show ?thesis unfolding sigs customerSign_throws [OF norm' ne found pending Inl] by simp
      next
        case (Inr roles)
        from bad found Inr have bad': "validate_items items \<noteq> None
            \<or> assertRolesAllowed (map it_role items) (customer (splitRolesBySigner roles)) \<noteq> Inr ()"
          by auto
        show ?thesis
          unfolding sigs customerSign_pending [OF norm' ne found pending Inr]
          using customer_sign_items_bad [OF bad', of env now ct "beginTransaction (getConnection d)"]
          by (simp add: rollback_begin)
      qed
    qed
  qed
qed

lemma company_transaction_bad:
  assumes norm: "normalizeSignaturesPayload sigs = Inr items"
      and bad: "validate_items items \<noteq> None
         \<or> (\<exists>ct roles. getContractByDocumentId d documentId = Some ct
              \<and> extractRequiredRolesFromConfig (config ct) = Inr roles
              \<and> assertRolesAllowed (map it_role items) (company (splitRolesBySigner roles)) \<noteq> Inr ())"
  shows "snd (company_transaction now d documentId sigs) = rolled_back d
       \<and> (\<exists>r. fst (company_transaction now d documentId sigs) = Inl r)"
proof -
  from bad have ne: "items \<noteq> []" using validate_items_Nil_iff not_allowed_ne by blast
  with norm obtain entries where sigs: "sigs = Some entries"
    by (cases sigs) (auto simp: normalizeSignaturesPayload_def)
  note norm' = norm [unfolded sigs]
  show ?thesis
  proof (cases "getContractByDocumentId d documentId")
    case None
    with norm' ne show ?thesis
      by (simp add: sigs company_transaction_def Let_def begin_fields rollback_begin)
  next
    case (Some ct)
    note found = this
    show ?thesis
    proof (cases "status ct = CUSTOMER_SIGNED")
      case False
      show ?thesis unfolding sigs company_transaction_not_signed [OF norm' ne found False] by simp
    next
      case signed: True
      show ?thesis
      proof (cases "extractRequiredRolesFromConfig (config ct)")
        case (Inl e)
        show ?thesis unfolding sigs company_transaction_throws [OF norm' ne found signed Inl] by simp
      next
        case (Inr roles)
        from bad found Inr have bad': "validate_items items \<noteq> None
            \<or> assertRolesAllowed (map it_role items) (company (splitRolesBySigner roles)) \<noteq> Inr ()"
          by auto
        show ?thesis
          unfolding sigs company_transaction_signed [OF norm' ne found signed Inr]
          using company_sign_items_bad [OF bad', of now ct "beginTransaction (getConnection d)"]
          by (auto simp: rollback_begin)
      qed
    qed
  qed
qed

lemma upsert_all_distinct:
  "distinct (map sig_key (tbl_signatures (working c))) \<Longrightarrow>
   distinct (map sig_key (tbl_signatures (working (upsert_all now cid p items c))))"
proof (induction items arbitrary: c)
  case Nil
  then show ?case by (simp add: upsert_all_Nil)
next
  case (Cons it items)
  have "distinct (map sig_key (tbl_signatures (working (conn_upsert now cid p it c))))"
    unfolding conn_upsert_fields using Cons.prems by (rule upsert_row_distinct)
  from Cons.IH [OF this] show ?case by (simp add: upsert_all_Cons)
qed

section \<open>Claims on the role extractor\<close>

text \<open>
  C3, as stated, fails: a role that contains both words, such as
  \<^verbatim>\<open>company_customer_rep\<close>, contains "company" and is required, yet it is not in the company
  set. The classifier tests "customer" first and "company" only for the roles left.
\<close>

theorem c3_counterexample:
  "str_includes ''company_customer_rep'' ''company''
   \<and> extractRequiredRolesFromConfig
        \<lparr>signatures = Some [SigObj (JStr ''company_customer_rep'') JUndefined]\<rparr>
       = Inr [''company_customer_rep'']
   \<and> customer (splitRolesBySigner [''company_customer_rep'']) = [''company_customer_rep'']
   \<and> ''company_customer_rep'' \<notin> set (company (splitRolesBySigner [''company_customer_rep'']))"
  by code_simp

text \<open>
  C3, amended. Unless the conversion of a value to text throws, the required roles are
  what the elements of \<^verbatim>\<open>config.signatures\<close> ask for, each kept where it occurs first:
  an element asks for its \<^verbatim>\<open>role\<close> as text, trimmed and cut to 100 characters, and for its
  \<^verbatim>\<open>id\<close>, treated the same way, when the role is absent, null or blank; an element
  without either asks for nothing. A role whose lower-case form contains "customer" goes
  to the customer set; one that does not, and whose lower-case form contains "company",
  goes to the company set; a role that matches neither is in neither set.
\<close>

theorem c3_required_roles:
  "extractRequiredRolesFromConfig cfg =
     (if \<exists>e \<in> set (case signatures cfg of Some a \<Rightarrow> a | None \<Rightarrow> []). elem_throws e
      then Inl cannot_convert
      else Inr (first_occurrences
             (List.map_filter role_or_id (case signatures cfg of Some a \<Rightarrow> a | None \<Rightarrow> []))))
   \<and> elem_required (SigObj JUndefined i) = safeStr i 100
   \<and> elem_required (SigObj JNull i) = safeStr i 100
   \<and> elem_required SigOther = Inr None
   \<and> (js_String v = Inr t \<and> v \<noteq> JUndefined \<and> v \<noteq> JNull \<longrightarrow>
        elem_required (SigObj v i) =
          (if js_trim t = [] then safeStr i 100 else Inr (Some (take 100 (js_trim t))))
      \<and> safeStr v 100 = Inr (if js_trim t = [] then None else Some (take 100 (js_trim t))))
   \<and> safeStr JUndefined 100 = Inr None
   \<and> safeStr JNull 100 = Inr None
   \<and> customer (splitRolesBySigner rs) = filter (\<lambda>r. str_includes (toLowerCase r) ''customer'') rs
   \<and> company (splitRolesBySigner rs) =
       filter (\<lambda>r. \<not> str_includes (toLowerCase r) ''customer'' \<and> str_includes (toLowerCase r) ''company'') rs
   \<and> (\<not> str_includes (toLowerCase r) ''customer'' \<and> \<not> str_includes (toLowerCase r) ''company'' \<longrightarrow>
       r \<notin> set (customer (splitRolesBySigner rs)) \<and> r \<notin> set (company (splitRolesBySigner rs)))"
proof -
  have a: "extractRequiredRolesFromConfig cfg =
     (if \<exists>e \<in> set (case signatures cfg of Some a \<Rightarrow> a | None \<Rightarrow> []). elem_throws e
      then Inl cannot_convert
      else Inr (first_occurrences
             (List.map_filter role_or_id (case signatures cfg of Some a \<Rightarrow> a | None \<Rightarrow> []))))"
    by (rule extract_eq)
  have b1: "elem_required (SigObj JUndefined i) = safeStr i 100"
    and b2: "elem_required (SigObj JNull i) = safeStr i 100"
    and b3: "elem_required SigOther = Inr None"
    by (simp_all add: elem_required_def safeStr_def)
  have c: "js_String v = Inr t \<and> v \<noteq> JUndefined \<and> v \<noteq> JNull \<longrightarrow>
        elem_required (SigObj v i) =
          (if js_trim t = [] then safeStr i 100 else Inr (Some (take 100 (js_trim t))))
      \<and> safeStr v 100 = Inr (if js_trim t = [] then None else Some (take 100 (js_trim t)))"
    by (auto simp: elem_required_def safeStr_def Let_def)
  have s1: "safeStr JUndefined 100 = Inr None" and s2: "safeStr JNull 100 = Inr None"
    by (simp_all add: safeStr_def)
  have d: "customer (splitRolesBySigner rs) = filter (\<lambda>r. str_includes (toLowerCase r) ''customer'') rs"
    by (simp add: splitRolesBySigner_def split_loop_eq)
  have e: "company (splitRolesBySigner rs) =
       filter (\<lambda>r. \<not> str_includes (toLowerCase r) ''customer'' \<and> str_includes (toLowerCase r) ''company'') rs"
    by (simp add: splitRolesBySigner_def split_loop_eq)
  have f: "\<not> str_includes (toLowerCase r) ''customer'' \<and> \<not> str_includes (toLowerCase r) ''company'' \<longrightarrow>
       r \<notin> set (customer (splitRolesBySigner rs)) \<and> r \<notin> set (company (splitRolesBySigner rs))"
    by (simp add: d e)
  from a b1 b2 b3 c s1 s2 d e f show ?thesis by (intro conjI)
qed

theorem c3_required_roles_witness:
  "js_String (JStr ''   '') = Inr ''   '' \<and> js_trim ''   '' = []
   \<and> \<not> str_includes (toLowerCase ''witness_1'') ''customer''
   \<and> \<not> str_includes (toLowerCase ''witness_1'') ''company''
   \<and> extractRequiredRolesFromConfig
        \<lparr>signatures = Some [SigObj (JStr '' customer_a '') JNull, SigObj JUndefined (JStr ''Company_B''),
           SigObj (JStr ''customer_a'') JNull, SigOther, SigObj JNull (JStr ''witness_1''),
           SigObj (JStr ''   '') (JStr ''customer_c''), SigObj (JNum ''12'') JNull]\<rparr>
       = Inr [''customer_a'', ''Company_B'', ''witness_1'', ''customer_c'', ''12'']
   \<and> elem_required (SigObj (JStr ''   '') (JStr ''customer_c'')) = Inr (Some ''customer_c'')
   \<and> elem_required (SigObj JNull (JStr ''customer_c'')) = Inr (Some ''customer_c'')
   \<and> elem_required (SigObj JUndefined (JStr ''customer_c'')) = Inr (Some ''customer_c'')
   \<and> customer (splitRolesBySigner [''customer_a'', ''Company_B'', ''witness_1'']) = [''customer_a'']
   \<and> company (splitRolesBySigner [''customer_a'', ''Company_B'', ''witness_1'']) = [''Company_B'']
   \<and> ''witness_1'' \<notin> set (customer (splitRolesBySigner [''customer_a'', ''Company_B'', ''witness_1'']))
   \<and> ''witness_1'' \<notin> set (company (splitRolesBySigner [''customer_a'', ''Company_B'', ''witness_1'']))"
proof -
  let ?sigs = "[SigObj (JStr '' customer_a '') JNull, SigObj JUndefined (JStr ''Company_B''),
           SigObj (JStr ''customer_a'') JNull, SigOther, SigObj JNull (JStr ''witness_1''),
           SigObj (JStr ''   '') (JStr ''customer_c''), SigObj (JNum ''12'') JNull]"
  let ?rs = "[''customer_a'', ''Company_B'', ''witness_1'']"
  note t = c3_required_roles [where cfg = "\<lparr>signatures = Some ?sigs\<rparr>" and i = "JStr ''customer_c''"
      and v = "JStr ''   ''" and t = "''   ''" and rs = ?rs and r = "''witness_1''"]
  have h0: "js_String (JStr ''   '') = Inr ''   ''" by simp
  have h1: "js_trim ''   '' = []" by code_simp
  have h2: "\<not> str_includes (toLowerCase ''witness_1'') ''customer''" by code_simp
  have h3: "\<not> str_includes (toLowerCase ''witness_1'') ''company''" by code_simp
  have n: "\<not> (\<exists>e \<in> set ?sigs. elem_throws e)" by code_simp
  have e1: "first_occurrences (List.map_filter role_or_id ?sigs)
     = [''customer_a'', ''Company_B'', ''witness_1'', ''customer_c'', ''12'']" by code_simp
  have id: "safeStr (JStr ''customer_c'') 100 = Inr (Some ''customer_c'')" by code_simp
  have e3: "filter (\<lambda>r. str_includes (toLowerCase r) ''customer'') ?rs = [''customer_a'']"
    by code_simp
  have e4: "filter (\<lambda>r. \<not> str_includes (toLowerCase r) ''customer'' \<and> str_includes (toLowerCase r) ''company'')
      ?rs = [''Company_B'']" by code_simp
  from t n e1 have c1: "extractRequiredRolesFromConfig \<lparr>signatures = Some ?sigs\<rparr>
      = Inr [''customer_a'', ''Company_B'', ''witness_1'', ''customer_c'', ''12'']"
    by (simp only: config.simps option.case if_False)
  from t h0 h1 id have c2: "elem_required (SigObj (JStr ''   '') (JStr ''customer_c'')) = Inr (Some ''customer_c'')"
    by simp
  from t id have c3: "elem_required (SigObj JNull (JStr ''customer_c'')) = Inr (Some ''customer_c'')"
    and c4: "elem_required (SigObj JUndefined (JStr ''customer_c'')) = Inr (Some ''customer_c'')"
    by simp_all
  from t e3 have c5: "customer (splitRolesBySigner ?rs) = [''customer_a'']" by simp
  from t e4 have c6: "company (splitRolesBySigner ?rs) = [''Company_B'']" by simp
  from t h2 h3 have c7: "''witness_1'' \<notin> set (customer (splitRolesBySigner ?rs))"
    and c8: "''witness_1'' \<notin> set (company (splitRolesBySigner ?rs))"
    by blast+
  from h0 h1 h2 h3 c1 c2 c3 c4 c5 c6 c7 c8 show ?thesis by (intro conjI)
qed




section \<open>Claims on the signature store\<close>

text \<open>
  C8. In a table whose rows are unique for (contract, role), after the upsert of role R
  with image X the rows listed for the contract hold exactly one row for R; its image is X
  and its time is the time of the upsert, whatever was stored for R before. The table stays
  unique for (contract, role).
\<close>

theorem c8_upsert_roundtrip:
  assumes "distinct (map sig_key (tbl_signatures d))"
  shows "(\<exists>row. filter (\<lambda>r. role r = R)
             (getSignaturesByContractId (upsertSignature now d cid R p X nm pos) cid) = [row]
           \<and> signature_image row = X \<and> signed_at row = now)
       \<and> distinct (map sig_key (tbl_signatures (upsertSignature now d cid R p X nm pos)))"
proof -
  let ?rows = "upsert_row now cid R p X nm pos (tbl_signatures d)"
  have u: "tbl_signatures (upsertSignature now d cid R p X nm pos) = ?rows"
    by (simp add: upsertSignature_def)
  obtain row where row: "row \<in> set ?rows" "contract_id row = cid" "role row = R"
      "signature_image row = X" "signed_at row = now"
    using upsert_row_has [of now cid R p X nm pos "tbl_signatures d"] by blast
  have d: "distinct (map sig_key ?rows)" using assms by (rule upsert_row_distinct)
  have "filter (\<lambda>r. role r = R) (filter (\<lambda>r. contract_id r = cid) ?rows)
      = filter (\<lambda>r. sig_key r = sig_key row) ?rows"
    using row by (auto simp: sig_key_def intro: filter_cong)
  also have "\<dots> = [row]" using d row(1) by (rule filter_key_singleton)
  finally have "filter (\<lambda>r. role r = R)
      (getSignaturesByContractId (upsertSignature now d cid R p X nm pos) cid) = [row]"
    by (simp only: getSignaturesByContractId_def u)
  with row d u show ?thesis by auto
qed

theorem c8_upsert_roundtrip_witness:
  "distinct (map sig_key
      [\<lparr>contract_id = 1, role = ''customer_a'', signature_image = JStr ''data:image/png;base64,OLD'',
        signer_name = None, signer_position = None, signer_role = CUSTOMER, signed_at = 3\<rparr>])
   \<and> getSignaturesByContractId
        (upsertSignature 9
           \<lparr>tbl_contracts = [], tbl_signatures =
             [\<lparr>contract_id = 1, role = ''customer_a'', signature_image = JStr ''data:image/png;base64,OLD'',
               signer_name = None, signer_position = None, signer_role = CUSTOMER, signed_at = 3\<rparr>]\<rparr>
           1 ''customer_a'' CUSTOMER (JStr ''data:image/png;base64,NEW'') (Some ''Ann'') None) 1
       = [\<lparr>contract_id = 1, role = ''customer_a'', signature_image = JStr ''data:image/png;base64,NEW'',
           signer_name = Some ''Ann'', signer_position = None, signer_role = CUSTOMER, signed_at = 9\<rparr>]
   \<and> (\<exists>row. filter (\<lambda>r. role r = ''customer_a'')
          (getSignaturesByContractId
            (upsertSignature 9
               \<lparr>tbl_contracts = [], tbl_signatures =
                 [\<lparr>contract_id = 1, role = ''customer_a'', signature_image = JStr ''data:image/png;base64,OLD'',
                   signer_name = None, signer_position = None, signer_role = CUSTOMER, signed_at = 3\<rparr>]\<rparr>
               1 ''customer_a'' CUSTOMER (JStr ''data:image/png;base64,NEW'') (Some ''Ann'') None) 1) = [row]
        \<and> signature_image row = JStr ''data:image/png;base64,NEW'' \<and> signed_at row = 9)"
proof -
  let ?old = "\<lparr>contract_id = 1, role = ''customer_a'', signature_image = JStr ''data:image/png;base64,OLD'',
        signer_name = None, signer_position = None, signer_role = CUSTOMER, signed_at = 3\<rparr>"
  let ?d = "\<lparr>tbl_contracts = [], tbl_signatures = [?old]\<rparr>"
  have h: "distinct (map sig_key (tbl_signatures ?d))" by simp
  have h': "distinct (map sig_key [?old])" by simp
  have ev: "getSignaturesByContractId
        (upsertSignature 9 ?d 1 ''customer_a'' CUSTOMER (JStr ''data:image/png;base64,NEW'') (Some ''Ann'') None) 1
       = [\<lparr>contract_id = 1, role = ''customer_a'', signature_image = JStr ''data:image/png;base64,NEW'',
           signer_name = Some ''Ann'', signer_position = None, signer_role = CUSTOMER, signed_at = 9\<rparr>]"
    by (simp add: getSignaturesByContractId_def upsertSignature_def upsert_row_def)
  from c8_upsert_roundtrip [OF h, of "''customer_a''" 9 1 CUSTOMER "JStr ''data:image/png;base64,NEW''"
      "Some ''Ann''" None]
  have ex: "\<exists>row. filter (\<lambda>r. role r = ''customer_a'')
          (getSignaturesByContractId
            (upsertSignature 9 ?d 1 ''customer_a'' CUSTOMER (JStr ''data:image/png;base64,NEW'') (Some ''Ann'') None) 1) = [row]
        \<and> signature_image row = JStr ''data:image/png;base64,NEW'' \<and> signed_at row = 9"
    by (rule conjunct1)
  from h' ev ex show ?thesis by (intro conjI)
qed

section \<open>Claims on the signing handlers\<close>

text \<open>
  C1, as stated, fails: on a PENDING contract that requires \<^verbatim>\<open>customer_a\<close> and
  \<^verbatim>\<open>customer_b\<close> and already holds the signature of \<^verbatim>\<open>customer_b\<close>, a customer-sign call
  that submits a valid signature for \<^verbatim>\<open>customer_a\<close> alone, a strict subset of the required
  roles, is answered with full success and moves the contract to CUSTOMER_SIGNED.
\<close>

theorem c1_counterexample:
  "status (sample_contract PENDING) = PENDING
   \<and> extractRequiredRolesFromConfig (config (sample_contract PENDING))
       = Inr [''customer_a'', ''customer_b'', ''company_w'']
   \<and> customer (splitRolesBySigner [''customer_a'', ''customer_b'', ''company_w''])
       = [''customer_a'', ''customer_b'']
   \<and> normalizeSignaturesPayload (Some [(''customer_a'', PString sample_image)])
       = Inr [\<lparr>it_role = ''customer_a'', it_image = JStr sample_image, it_name = None,
               it_position = None\<rparr>]
   \<and> validate_items [\<lparr>it_role = ''customer_a'', it_image = JStr sample_image, it_name = None,
               it_position = None\<rparr>] = None
   \<and> fst (customerSign sample_env 5
          \<lparr>tbl_contracts = [sample_contract PENDING],
            tbl_signatures = [sample_row ''customer_b'' CUSTOMER]\<rparr>
          ''DOC-1'' (Some [(''customer_a'', PString sample_image)]))
       = Json 200 ''Customer signed successfully''
   \<and> map status (tbl_contracts (committed (snd (customerSign sample_env 5
          \<lparr>tbl_contracts = [sample_contract PENDING],
            tbl_signatures = [sample_row ''customer_b'' CUSTOMER]\<rparr>
          ''DOC-1'' (Some [(''customer_a'', PString sample_image)])))))
       = [CUSTOMER_SIGNED]"
  by code_simp

text \<open>
  C1, amended. The contract is PENDING and its customer roles are \<open>required\<close>; the table of
  signatures is unique for (contract, role); the call submits valid signatures for roles
  among the required ones, and some required role \<open>r0\<close> is neither submitted nor stored
  with an image for the customer. Then the call commits a row for every submitted item
  (its image, the time of the call) with one upsert each and no other statement, leaves the
  table of contracts as it was, so the contract is still PENDING, and answers 200 with a
  partial success that lists exactly the required roles without a stored image for the
  customer after the call; \<open>r0\<close> is one of them.
\<close>

theorem c1_partial_sign:
  assumes found: "getContractByDocumentId d documentId = Some ct"
      and pending: "status ct = PENDING"
      and roles: "extractRequiredRolesFromConfig (config ct) = Inr roles"
      and req: "required = customer (splitRolesBySigner roles)"
      and items: "normalizeSignaturesPayload (Some sigs) = Inr items"
      and keys: "distinct (map fst sigs)"
      and uniq: "distinct (map sig_key (tbl_signatures d))"
      and nonempty: "items \<noteq> []"
      and valid: "validate_items items = None"
      and subset: "set (map it_role items) \<subseteq> set required"
      and r0: "r0 \<in> set required" "r0 \<notin> set (map it_role items)"
        "\<not> stored_image d (id' ct) CUSTOMER r0"
  shows "\<exists>n c.
           customerSign env now d documentId (Some sigs) =
             (JsonPartial 200 ''Customer signed partially'' n (length required)
                (filter (\<lambda>r. \<not> stored_image (committed c) (id' ct) CUSTOMER r) required), c)
         \<and> \<not> stored_image (committed c) (id' ct) CUSTOMER r0
         \<and> tbl_contracts (committed c) = tbl_contracts d
         \<and> getContractByDocumentId (committed c) documentId = Some ct
         \<and> (\<forall>it \<in> set items. \<exists>row \<in> set (tbl_signatures (committed c)).
               contract_id row = id' ct \<and> role row = it_role it
               \<and> signature_image row = it_image it \<and> signed_at row = now)
         \<and> statements c = BEGIN # map (\<lambda>it. UPSERT (id' ct) (it_role it) CUSTOMER) items @ [COMMIT]"
proof -
  let ?c0 = "beginTransaction (getConnection d)"
  let ?c1 = "upsert_all now (id' ct) CUSTOMER items ?c0"
  let ?has = "\<lambda>c r. has_image (groupSignaturesToMap (getSignaturesByContractId c (id' ct))) CUSTOMER r"
  let ?missing = "filter (\<lambda>r. \<not> stored_image (working ?c1) (id' ct) CUSTOMER r) required"
  let ?n = "signed_count ?c1 (id' ct) CUSTOMER"
  from r0(1) have ne: "required \<noteq> []" by auto
  have allowed: "assertRolesAllowed (map it_role items) required = Inr ()"
    using subset by (simp only: assertRolesAllowed_ok)
  have uniq1: "distinct (map sig_key (tbl_signatures (working ?c1)))"
    by (rule upsert_all_distinct) (simp add: begin_fields uniq)
  have has1: "?has (working ?c1) r = stored_image (working ?c1) (id' ct) CUSTOMER r" for r
    by (rule has_image_stored [OF uniq1])
  have has0: "?has d r = stored_image d (id' ct) CUSTOMER r" for r
    by (rule has_image_stored [OF uniq])
  have m: "missing_after ?c1 (id' ct) required CUSTOMER = ?missing"
    by (simp add: missing_after_def assertSignedAll_def has1)
  have "?has (working ?c1) r0 = ?has (working ?c0) r0"
    using r0(2) by (intro upsert_all_has_image_other) simp
  with r0(3) have not0: "\<not> stored_image (working ?c1) (id' ct) CUSTOMER r0"
    by (simp add: begin_fields has0 has1)
  with r0(1) have "r0 \<in> set ?missing" by simp
  then have mne: "?missing \<noteq> []" by (metis empty_iff empty_set)
  have run: "customer_sign_items env now ct required items ?c0 =
      (JsonPartial 200 ''Customer signed partially'' ?n (length required) ?missing, commit ?c1)"
    using valid allowed mne by (simp add: customer_sign_items_def Let_def m)
  have call: "customerSign env now d documentId (Some sigs) =
      (JsonPartial 200 ''Customer signed partially'' ?n (length required) ?missing, commit ?c1)"
    using customerSign_pending [OF items nonempty found pending roles, of env now] ne run
    by (simp add: req [symmetric])
  have contracts: "tbl_contracts (committed (commit ?c1)) = tbl_contracts d"
    by (simp add: commit_fields upsert_all_contracts begin_fields)
  then have still: "getContractByDocumentId (committed (commit ?c1)) documentId = Some ct"
    using found by (simp add: getContractByDocumentId_def)
  have dist: "distinct (map it_role items)"
    using keys it_role_normalize [OF items] by simp
  have rows: "\<forall>it \<in> set items. \<exists>row \<in> set (tbl_signatures (committed (commit ?c1))).
       contract_id row = id' ct \<and> role row = it_role it
       \<and> signature_image row = it_image it \<and> signed_at row = now"
    using upsert_all_rows [OF dist, of _ now "id' ct" CUSTOMER ?c0]
    by (simp add: commit_fields)
  have stmts: "statements (commit ?c1) =
      BEGIN # map (\<lambda>it. UPSERT (id' ct) (it_role it) CUSTOMER) items @ [COMMIT]"
    by (simp add: commit_fields upsert_all_statements begin_fields)
  have post: "committed (commit ?c1) = working ?c1" by (simp add: commit_fields)
  have call': "customerSign env now d documentId (Some sigs) =
      (JsonPartial 200 ''Customer signed partially'' ?n (length required)
         (filter (\<lambda>r. \<not> stored_image (committed (commit ?c1)) (id' ct) CUSTOMER r) required),
       commit ?c1)"
    using call by (simp only: post)
  have not0': "\<not> stored_image (committed (commit ?c1)) (id' ct) CUSTOMER r0"
    unfolding post by (rule not0)
  from call' not0' contracts still rows stmts show ?thesis by blast
qed

theorem c1_partial_sign_witness:
  "getContractByDocumentId \<lparr>tbl_contracts = [sample_contract PENDING], tbl_signatures = []\<rparr>
      ''DOC-1'' = Some (sample_contract PENDING)
   \<and> status (sample_contract PENDING) = PENDING
   \<and> extractRequiredRolesFromConfig (config (sample_contract PENDING))
       = Inr [''customer_a'', ''customer_b'', ''company_w'']
   \<and> [''customer_a'', ''customer_b'']
       = customer (splitRolesBySigner [''customer_a'', ''customer_b'', ''company_w''])
   \<and> normalizeSignaturesPayload (Some [(''customer_a'', PString sample_image)])
       = Inr [\<lparr>it_role = ''customer_a'', it_image = JStr sample_image, it_name = None,
               it_position = None\<rparr>]
   \<and> validate_items [\<lparr>it_role = ''customer_a'', it_image = JStr sample_image, it_name = None,
               it_position = None\<rparr>] = None
   \<and> \<not> stored_image \<lparr>tbl_contracts = [sample_contract PENDING], tbl_signatures = []\<rparr>
         (id' (sample_contract PENDING)) CUSTOMER ''customer_b''
   \<and> (\<exists>n c. customerSign sample_env 5
          \<lparr>tbl_contracts = [sample_contract PENDING], tbl_signatures = []\<rparr>
          ''DOC-1'' (Some [(''customer_a'', PString sample_image)])
        = (JsonPartial 200 ''Customer signed partially'' n 2
             (filter (\<lambda>r. \<not> stored_image (committed c) (id' (sample_contract PENDING)) CUSTOMER r)
                [''customer_a'', ''customer_b'']), c)
        \<and> \<not> stored_image (committed c) (id' (sample_contract PENDING)) CUSTOMER ''customer_b''
        \<and> tbl_contracts (committed c) = [sample_contract PENDING]
        \<and> statements c = [BEGIN, UPSERT (id' (sample_contract PENDING)) ''customer_a'' CUSTOMER,
             COMMIT])"
proof -
  let ?d = "\<lparr>tbl_contracts = [sample_contract PENDING], tbl_signatures = []\<rparr>"
  let ?items = "[\<lparr>it_role = ''customer_a'', it_image = JStr sample_image, it_name = None,
               it_position = None\<rparr>]"
  let ?req = "[''customer_a'', ''customer_b'']"
  have found: "getContractByDocumentId ?d ''DOC-1'' = Some (sample_contract PENDING)"
    by (rule sample_found)
  have pending: "status (sample_contract PENDING) = PENDING" by (rule sample_status)
  have roles: "extractRequiredRolesFromConfig (config (sample_contract PENDING))
       = Inr [''customer_a'', ''customer_b'', ''company_w'']" by (rule sample_roles)
  have req: "?req = customer (splitRolesBySigner [''customer_a'', ''customer_b'', ''company_w''])"
    by (simp only: sample_required)
  have items: "normalizeSignaturesPayload (Some [(''customer_a'', PString sample_image)]) = Inr ?items"
    using normalize_strings [of "[(''customer_a'', sample_image)]"] by simp
  have keys: "distinct (map fst [(''customer_a'', PString sample_image)])" by simp
  have uniq: "distinct (map sig_key (tbl_signatures ?d))" by simp
  have nonempty: "?items \<noteq> []" by simp
  have valid: "validate_items ?items = None" by code_simp
  have subset: "set (map it_role ?items) \<subseteq> set ?req" by simp
  have r0: "''customer_b'' \<in> set ?req" "''customer_b'' \<notin> set (map it_role ?items)" by simp_all
  have nst: "\<not> stored_image ?d (id' (sample_contract PENDING)) CUSTOMER ''customer_b''"
    by (simp add: stored_image_def)
  note t = c1_partial_sign [OF found pending roles req items keys uniq nonempty valid subset r0 nst,
      of sample_env 5]
  from t obtain n c where
    a: "customerSign sample_env 5 ?d ''DOC-1'' (Some [(''customer_a'', PString sample_image)])
        = (JsonPartial 200 ''Customer signed partially'' n (length ?req)
             (filter (\<lambda>r. \<not> stored_image (committed c) (id' (sample_contract PENDING)) CUSTOMER r)
                ?req), c)"
    and b: "\<not> stored_image (committed c) (id' (sample_contract PENDING)) CUSTOMER ''customer_b''"
    and c: "tbl_contracts (committed c) = tbl_contracts ?d"
    and e: "statements c = BEGIN # map (\<lambda>it. UPSERT (id' (sample_contract PENDING)) (it_role it) CUSTOMER) ?items @ [COMMIT]"
    by blast
  have len: "length ?req = 2" by simp
  have c': "tbl_contracts (committed c) = [sample_contract PENDING]" using c by simp
  have e': "statements c = [BEGIN, UPSERT (id' (sample_contract PENDING)) ''customer_a'' CUSTOMER, COMMIT]"
    using e by simp
  have concl: "\<exists>n c. customerSign sample_env 5 ?d ''DOC-1'' (Some [(''customer_a'', PString sample_image)])
        = (JsonPartial 200 ''Customer signed partially'' n 2
             (filter (\<lambda>r. \<not> stored_image (committed c) (id' (sample_contract PENDING)) CUSTOMER r)
                ?req), c)
        \<and> \<not> stored_image (committed c) (id' (sample_contract PENDING)) CUSTOMER ''customer_b''
        \<and> tbl_contracts (committed c) = [sample_contract PENDING]
        \<and> statements c = [BEGIN, UPSERT (id' (sample_contract PENDING)) ''customer_a'' CUSTOMER,
             COMMIT]"
    using a [unfolded len] b c' e' by blast
  from found pending roles req items valid nst concl show ?thesis by blast
qed

text \<open>
  C4, as stated, fails: the company-sign handler has one guard and one message. A call on
  a PENDING contract (the customer has not signed) and a call on a COMPLETED contract (the
  company has signed) are both answered 400 with the same message.
\<close>

theorem c4_counterexample:
  "companySign sample_env 5 \<lparr>tbl_contracts = [sample_contract PENDING], tbl_signatures = []\<rparr>
      ''DOC-1'' (Some [(''company_w'', PString sample_image)])
     = (Json 400 ''Contract is not ready for company sign'',
        \<lparr>tbl_contracts = [sample_contract PENDING], tbl_signatures = []\<rparr>)
   \<and> companySign sample_env 5 \<lparr>tbl_contracts = [sample_contract COMPLETED], tbl_signatures = []\<rparr>
      ''DOC-1'' (Some [(''company_w'', PString sample_image)])
     = (Json 400 ''Contract is not ready for company sign'',
        \<lparr>tbl_contracts = [sample_contract COMPLETED], tbl_signatures = []\<rparr>)"
  by code_simp

text \<open>
  C4, amended. For a call with a payload that gives at least one item, on a contract that
  exists: a customer-sign call on a contract that is not PENDING is answered 409, with
  "Contract already completed" when it is COMPLETED and "Customer already signed"
  otherwise; a company-sign call on a contract that is not CUSTOMER_SIGNED is answered 400
  with the one message "Contract is not ready for company sign". In both cases the
  transaction is rolled back with no statement in it, and the tables are as they were.
\<close>

theorem c4_state_guard:
  assumes "normalizeSignaturesPayload (Some sigs) = Inr items"
      and "items \<noteq> []"
      and "getContractByDocumentId d documentId = Some ct"
  shows "(status ct \<noteq> PENDING \<longrightarrow>
            customerSign env now d documentId (Some sigs) =
              (Json 409 (if status ct = COMPLETED then ''Contract already completed''
                         else ''Customer already signed''), rolled_back d))
       \<and> (status ct \<noteq> CUSTOMER_SIGNED \<longrightarrow>
            company_transaction now d documentId (Some sigs) =
              (Inl (Json 400 ''Contract is not ready for company sign''), rolled_back d)
          \<and> companySign env now d documentId (Some sigs) =
              (Json 400 ''Contract is not ready for company sign'', d))
       \<and> committed (rolled_back d) = d
       \<and> statements (rolled_back d) = [BEGIN, ROLLBACK]"
proof (intro conjI impI)
  assume "status ct \<noteq> PENDING"
  then show "customerSign env now d documentId (Some sigs) =
      (Json 409 (if status ct = COMPLETED then ''Contract already completed''
                 else ''Customer already signed''), rolled_back d)"
    by (rule customerSign_not_pending [OF assms])
next
  assume "status ct \<noteq> CUSTOMER_SIGNED"
  then show t: "company_transaction now d documentId (Some sigs) =
      (Inl (Json 400 ''Contract is not ready for company sign''), rolled_back d)"
    by (rule company_transaction_not_signed [OF assms])
  show "companySign env now d documentId (Some sigs) =
      (Json 400 ''Contract is not ready for company sign'', d)"
    using companySign_Inl [OF t] by simp
qed simp_all

theorem c4_state_guard_witness:
  "customerSign sample_env 5 \<lparr>tbl_contracts = [sample_contract COMPLETED], tbl_signatures = []\<rparr>
      ''DOC-1'' (Some [(''customer_a'', PString sample_image)])
     = (Json 409 ''Contract already completed'',
        rolled_back \<lparr>tbl_contracts = [sample_contract COMPLETED], tbl_signatures = []\<rparr>)
   \<and> customerSign sample_env 5 \<lparr>tbl_contracts = [sample_contract CUSTOMER_SIGNED], tbl_signatures = []\<rparr>
      ''DOC-1'' (Some [(''customer_a'', PString sample_image)])
     = (Json 409 ''Customer already signed'',
        rolled_back \<lparr>tbl_contracts = [sample_contract CUSTOMER_SIGNED], tbl_signatures = []\<rparr>)
   \<and> companySign sample_env 5 \<lparr>tbl_contracts = [sample_contract COMPLETED], tbl_signatures = []\<rparr>
      ''DOC-1'' (Some [(''customer_a'', PString sample_image)])
     = (Json 400 ''Contract is not ready for company sign'',
        \<lparr>tbl_contracts = [sample_contract COMPLETED], tbl_signatures = []\<rparr>)"
proof -
  have n: "normalizeSignaturesPayload (Some [(''customer_a'', PString sample_image)])
      = Inr [\<lparr>it_role = ''customer_a'', it_image = JStr sample_image, it_name = None,
          it_position = None\<rparr>]"
    using normalize_strings [of "[(''customer_a'', sample_image)]"] by simp
  have ne: "[\<lparr>it_role = ''customer_a'', it_image = JStr sample_image, it_name = None,
          it_position = None\<rparr>] \<noteq> []" by simp
  note s = sample_status
  from c4_state_guard [OF n ne sample_found [of COMPLETED "[]"], where env = sample_env and now = 5]
  have a: "customerSign sample_env 5 \<lparr>tbl_contracts = [sample_contract COMPLETED], tbl_signatures = []\<rparr>
      ''DOC-1'' (Some [(''customer_a'', PString sample_image)])
     = (Json 409 ''Contract already completed'',
        rolled_back \<lparr>tbl_contracts = [sample_contract COMPLETED], tbl_signatures = []\<rparr>)"
    and b: "companySign sample_env 5 \<lparr>tbl_contracts = [sample_contract COMPLETED], tbl_signatures = []\<rparr>
      ''DOC-1'' (Some [(''customer_a'', PString sample_image)])
     = (Json 400 ''Contract is not ready for company sign'',
        \<lparr>tbl_contracts = [sample_contract COMPLETED], tbl_signatures = []\<rparr>)"
    by (simp_all add: s)
  from c4_state_guard [OF n ne sample_found [of CUSTOMER_SIGNED "[]"], where env = sample_env and now = 5]
  have c: "customerSign sample_env 5 \<lparr>tbl_contracts = [sample_contract CUSTOMER_SIGNED], tbl_signatures = []\<rparr>
      ''DOC-1'' (Some [(''customer_a'', PString sample_image)])
     = (Json 409 ''Customer already signed'',
        rolled_back \<lparr>tbl_contracts = [sample_contract CUSTOMER_SIGNED], tbl_signatures = []\<rparr>)"
    by (simp add: s)
  from a c b show ?thesis by (intro conjI)
qed

text \<open>
  C5, at a role with a colon. The contract is PENDING and its customer roles are
  \<^verbatim>\<open>customer_a\<close> and \<^verbatim>\<open>customer_b\<close>. A customer-sign call that submits the role \<^verbatim>\<open>x:y\<close> is
  answered 400 and rolled back, but the reply names the role \<^verbatim>\<open>x\<close> and gives \<^verbatim>\<open>y\<close> as the
  allowed roles: the handler cuts the message of the error at every colon.
\<close>

theorem c5_role_with_colon:
  "extractRequiredRolesFromConfig (config (sample_contract PENDING))
     = Inr [''customer_a'', ''customer_b'', ''company_w'']
   \<and> customer (splitRolesBySigner [''customer_a'', ''customer_b'', ''company_w''])
     = [''customer_a'', ''customer_b'']
   \<and> customerSign sample_env 5 \<lparr>tbl_contracts = [sample_contract PENDING], tbl_signatures = []\<rparr>
      ''DOC-1'' (Some [(''x:y'', PString sample_image)])
     = (JsonAllowed 400 ''Role not allowed for CUSTOMER: x'' [''y''],
        rolled_back \<lparr>tbl_contracts = [sample_contract PENDING], tbl_signatures = []\<rparr>)"
  by code_simp

text \<open>
  C6. Whatever the payload gives as items: when an item fails the validation (the shape of
  its role, its image), or a role is not among those required of the party, the
  connection of the call is the one rolled back with no statement in it, and the tables
  are as they were; where the call reaches the validation the reply is 400. An upsert is
  among the statements of a call only when every item has passed the validation and every
  role is allowed.
\<close>

theorem c6_validation_before_upsert:
  assumes "normalizeSignaturesPayload sigs = Inr items"
  shows "(validate_items items \<noteq> None
          \<or> (getContractByDocumentId d documentId = Some ct
              \<and> extractRequiredRolesFromConfig (config ct) = Inr roles
              \<and> assertRolesAllowed (map it_role items) (customer (splitRolesBySigner roles)) \<noteq> Inr ())
          \<longrightarrow> snd (customerSign env now d documentId sigs) = rolled_back d)
       \<and> (validate_items items \<noteq> None
          \<or> (getContractByDocumentId d documentId = Some ct
              \<and> extractRequiredRolesFromConfig (config ct) = Inr roles
              \<and> assertRolesAllowed (map it_role items) (company (splitRolesBySigner roles)) \<noteq> Inr ())
          \<longrightarrow> snd (company_transaction now d documentId sigs) = rolled_back d
            \<and> snd (companySign env now d documentId sigs) = d)
       \<and> committed (rolled_back d) = d
       \<and> statements (rolled_back d) = [BEGIN, ROLLBACK]
       \<and> (getContractByDocumentId d documentId = Some ct \<and> status ct = PENDING
          \<and> extractRequiredRolesFromConfig (config ct) = Inr roles
          \<and> customer (splitRolesBySigner roles) \<noteq> []
          \<and> (validate_items items \<noteq> None
              \<or> assertRolesAllowed (map it_role items) (customer (splitRolesBySigner roles)) \<noteq> Inr ())
          \<longrightarrow> http_status (fst (customerSign env now d documentId sigs)) = Some 400)
       \<and> (getContractByDocumentId d documentId = Some ct \<and> status ct = CUSTOMER_SIGNED
          \<and> extractRequiredRolesFromConfig (config ct) = Inr roles
          \<and> company (splitRolesBySigner roles) \<noteq> []
          \<and> (validate_items items \<noteq> None
              \<or> assertRolesAllowed (map it_role items) (company (splitRolesBySigner roles)) \<noteq> Inr ())
          \<longrightarrow> http_status (fst (companySign env now d documentId sigs)) = Some 400)
       \<and> (UPSERT k r p \<in> set (statements (snd (customerSign env now d documentId sigs))) \<longrightarrow>
            validate_items items = None
          \<and> (\<exists>ct' roles'. getContractByDocumentId d documentId = Some ct'
                \<and> extractRequiredRolesFromConfig (config ct') = Inr roles'
                \<and> assertRolesAllowed (map it_role items) (customer (splitRolesBySigner roles')) = Inr ()))
       \<and> (UPSERT k r p \<in> set (statements (snd (company_transaction now d documentId sigs))) \<longrightarrow>
            validate_items items = None
          \<and> (\<exists>ct' roles'. getContractByDocumentId d documentId = Some ct'
                \<and> extractRequiredRolesFromConfig (config ct') = Inr roles'
                \<and> assertRolesAllowed (map it_role items) (company (splitRolesBySigner roles')) = Inr ()))"
proof (intro conjI impI)
  assume "validate_items items \<noteq> None
          \<or> (getContractByDocumentId d documentId = Some ct
              \<and> extractRequiredRolesFromConfig (config ct) = Inr roles
              \<and> assertRolesAllowed (map it_role items) (customer (splitRolesBySigner roles)) \<noteq> Inr ())"
  then show "snd (customerSign env now d documentId sigs) = rolled_back d"
    by (intro customerSign_bad [OF assms]) blast
next
  assume "validate_items items \<noteq> None
          \<or> (getContractByDocumentId d documentId = Some ct
              \<and> extractRequiredRolesFromConfig (config ct) = Inr roles
              \<and> assertRolesAllowed (map it_role items) (company (splitRolesBySigner roles)) \<noteq> Inr ())"
  then have bad: "validate_items items \<noteq> None
         \<or> (\<exists>ct roles. getContractByDocumentId d documentId = Some ct
              \<and> extractRequiredRolesFromConfig (config ct) = Inr roles
              \<and> assertRolesAllowed (map it_role items) (company (splitRolesBySigner roles)) \<noteq> Inr ())"
    by blast
  from company_transaction_bad [OF assms bad, of now]
  obtain r where t: "company_transaction now d documentId sigs = (Inl r, rolled_back d)"
    by (metis prod.collapse)
  then show "snd (company_transaction now d documentId sigs) = rolled_back d" by simp
  from companySign_Inl [OF t, of env] show "snd (companySign env now d documentId sigs) = d" by simp
next
  assume h: "getContractByDocumentId d documentId = Some ct \<and> status ct = PENDING
          \<and> extractRequiredRolesFromConfig (config ct) = Inr roles
          \<and> customer (splitRolesBySigner roles) \<noteq> []
          \<and> (validate_items items \<noteq> None
              \<or> assertRolesAllowed (map it_role items) (customer (splitRolesBySigner roles)) \<noteq> Inr ())"
  then have bad: "validate_items items \<noteq> None
      \<or> assertRolesAllowed (map it_role items) (customer (splitRolesBySigner roles)) \<noteq> Inr ()"
    by simp
  then have ne: "items \<noteq> []" using validate_items_Nil_iff not_allowed_ne by blast
  with assms obtain entries where sigs: "sigs = Some entries"
    by (cases sigs) (auto simp: normalizeSignaturesPayload_def)
  from h show "http_status (fst (customerSign env now d documentId sigs)) = Some 400"
    unfolding sigs
    using customerSign_pending [OF assms [unfolded sigs] ne, of d documentId ct roles env now]
      customer_sign_items_bad [OF bad, of env now ct "beginTransaction (getConnection d)"]
    by simp
next
  assume h: "getContractByDocumentId d documentId = Some ct \<and> status ct = CUSTOMER_SIGNED
          \<and> extractRequiredRolesFromConfig (config ct) = Inr roles
          \<and> company (splitRolesBySigner roles) \<noteq> []
          \<and> (validate_items items \<noteq> None
              \<or> assertRolesAllowed (map it_role items) (company (splitRolesBySigner roles)) \<noteq> Inr ())"
  then have bad: "validate_items items \<noteq> None
      \<or> assertRolesAllowed (map it_role items) (company (splitRolesBySigner roles)) \<noteq> Inr ()"
    by simp
  then have ne: "items \<noteq> []" using validate_items_Nil_iff not_allowed_ne by blast
  with assms obtain entries where sigs: "sigs = Some entries"
    by (cases sigs) (auto simp: normalizeSignaturesPayload_def)
  from company_sign_items_bad [OF bad, of now ct "beginTransaction (getConnection d)"]
  obtain r where r: "fst (company_sign_items now ct (company (splitRolesBySigner roles)) items
        (beginTransaction (getConnection d))) = Inl r" "http_status r = Some 400"
      "snd (company_sign_items now ct (company (splitRolesBySigner roles)) items
        (beginTransaction (getConnection d))) = rolled_back d"
    by (auto simp: rollback_begin)
  have t: "company_transaction now d documentId sigs = (Inl r, rolled_back d)"
    unfolding sigs
    using h r(1,3) company_transaction_signed [OF assms [unfolded sigs] ne, of d documentId ct roles now]
    by (simp add: prod_eq_iff)
  from companySign_Inl [OF t, of env] r(2)
  show "http_status (fst (companySign env now d documentId sigs)) = Some 400" by simp
next
  assume "UPSERT k r p \<in> set (statements (snd (customerSign env now d documentId sigs)))"
  from customerSign_upsert_valid [OF this] assms
  show "validate_items items = None"
    and "\<exists>ct' roles'. getContractByDocumentId d documentId = Some ct'
                \<and> extractRequiredRolesFromConfig (config ct') = Inr roles'
                \<and> assertRolesAllowed (map it_role items) (customer (splitRolesBySigner roles')) = Inr ()"
    by auto
next
  assume "UPSERT k r p \<in> set (statements (snd (company_transaction now d documentId sigs)))"
  from company_transaction_upsert_valid [OF this] assms
  show "validate_items items = None"
    and "\<exists>ct' roles'. getContractByDocumentId d documentId = Some ct'
                \<and> extractRequiredRolesFromConfig (config ct') = Inr roles'
                \<and> assertRolesAllowed (map it_role items) (company (splitRolesBySigner roles')) = Inr ()"
    by auto
qed simp_all

theorem c6_validation_before_upsert_witness:
  "validate_items
      [\<lparr>it_role = ''customer_a'', it_image = JStr sample_image, it_name = None, it_position = None\<rparr>,
       \<lparr>it_role = ''customer_b'', it_image = JStr ''no image'', it_name = None, it_position = None\<rparr>]
     \<noteq> None
   \<and> snd (customerSign sample_env 5
        \<lparr>tbl_contracts = [sample_contract PENDING], tbl_signatures = []\<rparr> ''DOC-1''
        (Some [(''customer_a'', PString sample_image), (''customer_b'', PString ''no image'')]))
       = rolled_back \<lparr>tbl_contracts = [sample_contract PENDING], tbl_signatures = []\<rparr>
   \<and> http_status (fst (customerSign sample_env 5
        \<lparr>tbl_contracts = [sample_contract PENDING], tbl_signatures = []\<rparr> ''DOC-1''
        (Some [(''customer_a'', PString sample_image), (''customer_b'', PString ''no image'')])))
       = Some 400
   \<and> assertRolesAllowed (map it_role
        [\<lparr>it_role = ''company_w'', it_image = JStr sample_image, it_name = None, it_position = None\<rparr>,
         \<lparr>it_role = ''company_x'', it_image = JStr sample_image, it_name = None, it_position = None\<rparr>])
        (company (splitRolesBySigner [''customer_a'', ''customer_b'', ''company_w''])) \<noteq> Inr ()
   \<and> snd (companySign sample_env 5
        \<lparr>tbl_contracts = [sample_contract CUSTOMER_SIGNED], tbl_signatures = []\<rparr> ''DOC-1''
        (Some [(''company_w'', PString sample_image), (''company_x'', PString sample_image)]))
       = \<lparr>tbl_contracts = [sample_contract CUSTOMER_SIGNED], tbl_signatures = []\<rparr>
   \<and> http_status (fst (companySign sample_env 5
        \<lparr>tbl_contracts = [sample_contract CUSTOMER_SIGNED], tbl_signatures = []\<rparr> ''DOC-1''
        (Some [(''company_w'', PString sample_image), (''company_x'', PString sample_image)])))
       = Some 400
   \<and> UPSERT 1 ''customer_a'' CUSTOMER \<in> set (statements (snd (customerSign sample_env 5
        \<lparr>tbl_contracts = [sample_contract PENDING], tbl_signatures = []\<rparr> ''DOC-1''
        (Some [(''customer_a'', PString sample_image)]))))
   \<and> validate_items
        [\<lparr>it_role = ''customer_a'', it_image = JStr sample_image, it_name = None, it_position = None\<rparr>]
       = None
   \<and> UPSERT 1 ''company_w'' COMPANY \<in> set (statements (snd (company_transaction 5
        \<lparr>tbl_contracts = [sample_contract CUSTOMER_SIGNED], tbl_signatures = []\<rparr> ''DOC-1''
        (Some [(''company_w'', PString sample_image)]))))
   \<and> validate_items
        [\<lparr>it_role = ''company_w'', it_image = JStr sample_image, it_name = None, it_position = None\<rparr>]
       = None"
proof -
  let ?dp = "\<lparr>tbl_contracts = [sample_contract PENDING], tbl_signatures = []\<rparr>"
  let ?ds = "\<lparr>tbl_contracts = [sample_contract CUSTOMER_SIGNED], tbl_signatures = []\<rparr>"
  let ?i1 = "[\<lparr>it_role = ''customer_a'', it_image = JStr sample_image, it_name = None, it_position = None\<rparr>,
       \<lparr>it_role = ''customer_b'', it_image = JStr ''no image'', it_name = None, it_position = None\<rparr>]"
  let ?i2 = "[\<lparr>it_role = ''company_w'', it_image = JStr sample_image, it_name = None, it_position = None\<rparr>,
         \<lparr>it_role = ''company_x'', it_image = JStr sample_image, it_name = None, it_position = None\<rparr>]"
  let ?i3 = "[\<lparr>it_role = ''customer_a'', it_image = JStr sample_image, it_name = None, it_position = None\<rparr>]"
  let ?i4 = "[\<lparr>it_role = ''company_w'', it_image = JStr sample_image, it_name = None, it_position = None\<rparr>]"
  let ?roles = "[''customer_a'', ''customer_b'', ''company_w'']"
  have n1: "normalizeSignaturesPayload
      (Some [(''customer_a'', PString sample_image), (''customer_b'', PString ''no image'')]) = Inr ?i1"
    using normalize_strings [of "[(''customer_a'', sample_image), (''customer_b'', ''no image'')]"]
    by simp
  have n2: "normalizeSignaturesPayload
      (Some [(''company_w'', PString sample_image), (''company_x'', PString sample_image)]) = Inr ?i2"
    using normalize_strings [of "[(''company_w'', sample_image), (''company_x'', sample_image)]"]
    by simp
  have n3: "normalizeSignaturesPayload (Some [(''customer_a'', PString sample_image)]) = Inr ?i3"
    using normalize_strings [of "[(''customer_a'', sample_image)]"] by simp
  have n4: "normalizeSignaturesPayload (Some [(''company_w'', PString sample_image)]) = Inr ?i4"
    using normalize_strings [of "[(''company_w'', sample_image)]"] by simp
  have h1: "validate_items ?i1 \<noteq> None" by code_simp
  have h2: "assertRolesAllowed (map it_role ?i2) (company (splitRolesBySigner ?roles)) \<noteq> Inr ()"
    by code_simp
  have h3: "UPSERT 1 ''customer_a'' CUSTOMER \<in> set (statements (snd (customerSign sample_env 5 ?dp
      ''DOC-1'' (Some [(''customer_a'', PString sample_image)]))))" by code_simp
  have h4: "UPSERT 1 ''company_w'' COMPANY \<in> set (statements (snd (company_transaction 5 ?ds
      ''DOC-1'' (Some [(''company_w'', PString sample_image)]))))" by code_simp
  have c1: "customer (splitRolesBySigner ?roles) \<noteq> []" and c2: "company (splitRolesBySigner ?roles) \<noteq> []"
    by (simp_all add: sample_required)
  note f1 = sample_found [of PENDING "[]"] and f2 = sample_found [of CUSTOMER_SIGNED "[]"]
  note r1 = sample_roles [of PENDING] and r2 = sample_roles [of CUSTOMER_SIGNED]
  note s = sample_status
  from c6_validation_before_upsert [OF n1, where d = ?dp and documentId = "''DOC-1''"
      and ct = "sample_contract PENDING" and roles = ?roles and env = sample_env and now = 5] h1 f1 r1 c1
  have a: "snd (customerSign sample_env 5 ?dp ''DOC-1''
        (Some [(''customer_a'', PString sample_image), (''customer_b'', PString ''no image'')]))
       = rolled_back ?dp"
    and a': "http_status (fst (customerSign sample_env 5 ?dp ''DOC-1''
        (Some [(''customer_a'', PString sample_image), (''customer_b'', PString ''no image'')])))
       = Some 400"
    using s [of PENDING] by blast+
  from c6_validation_before_upsert [OF n2, where d = ?ds and documentId = "''DOC-1''"
      and ct = "sample_contract CUSTOMER_SIGNED" and roles = ?roles and env = sample_env and now = 5]
    h2 f2 r2 c2
  have b: "snd (companySign sample_env 5 ?ds ''DOC-1''
        (Some [(''company_w'', PString sample_image), (''company_x'', PString sample_image)])) = ?ds"
    and b': "http_status (fst (companySign sample_env 5 ?ds ''DOC-1''
        (Some [(''company_w'', PString sample_image), (''company_x'', PString sample_image)])))
       = Some 400"
    using s [of CUSTOMER_SIGNED] by blast+
  from c6_validation_before_upsert [OF n3, where d = ?dp and documentId = "''DOC-1''"
      and env = sample_env and now = 5 and k = 1 and r = "''customer_a''" and p = CUSTOMER] h3
  have c: "validate_items ?i3 = None" by blast
  from c6_validation_before_upsert [OF n4, where d = ?ds and documentId = "''DOC-1''"
      and now = 5 and k = 1 and r = "''company_w''" and p = COMPANY] h4
  have e: "validate_items ?i4 = None" by blast
  from h1 a a' h2 b b' h3 c h4 e show ?thesis by (intro conjI)
qed

text \<open>
  C7, as stated, fails: the guard on the status comes before the roles are derived. A
  customer-sign call on a COMPLETED contract whose configuration gives no role at all is
  answered 409, "Contract already completed", and not with the error of the configuration.
\<close>

theorem c7_counterexample:
  "extractRequiredRolesFromConfig
      (config ((sample_contract COMPLETED)\<lparr>config := \<lparr>signatures = None\<rparr>\<rparr>)) = Inr []
   \<and> customer (splitRolesBySigner []) = []
   \<and> customerSign sample_env 5
        \<lparr>tbl_contracts = [(sample_contract COMPLETED)\<lparr>config := \<lparr>signatures = None\<rparr>\<rparr>],
          tbl_signatures = []\<rparr> ''DOC-1'' (Some [(''customer_a'', PString sample_image)])
       = (Json 409 ''Contract already completed'',
          rolled_back \<lparr>tbl_contracts = [(sample_contract COMPLETED)\<lparr>config := \<lparr>signatures = None\<rparr>\<rparr>],
            tbl_signatures = []\<rparr>)"
  by code_simp

text \<open>
  C7, amended. For a call with a payload that gives at least one item, on a contract that
  exists and whose configuration can be read: a customer-sign call on a PENDING contract
  without customer roles, and a company-sign call on a CUSTOMER_SIGNED contract without
  company roles, are answered 500 with the message of the party, and the transaction is
  rolled back with no statement in it. The errors of the input (an item that fails the
  validation, a role that is not allowed) are answered 400.
\<close>

theorem c7_empty_required_set:
  assumes "normalizeSignaturesPayload (Some sigs) = Inr items"
      and "items \<noteq> []"
      and "getContractByDocumentId d documentId = Some ct"
      and "extractRequiredRolesFromConfig (config ct) = Inr roles"
  shows "(status ct = PENDING \<and> customer (splitRolesBySigner roles) = [] \<longrightarrow>
            customerSign env now d documentId (Some sigs) = (Json 500 no_customer_roles, rolled_back d))
       \<and> (status ct = CUSTOMER_SIGNED \<and> company (splitRolesBySigner roles) = [] \<longrightarrow>
            company_transaction now d documentId (Some sigs) =
              (Inl (Json 500 no_company_roles), rolled_back d)
          \<and> companySign env now d documentId (Some sigs) = (Json 500 no_company_roles, d))
       \<and> committed (rolled_back d) = d
       \<and> statements (rolled_back d) = [BEGIN, ROLLBACK]
       \<and> (validate_items items = Some r \<longrightarrow> http_status r = Some 400)
       \<and> http_status (role_not_allowed_reply who msg) = Some 400"
proof (intro conjI impI)
  assume "status ct = PENDING \<and> customer (splitRolesBySigner roles) = []"
  then show "customerSign env now d documentId (Some sigs) = (Json 500 no_customer_roles, rolled_back d)"
    using customerSign_pending [OF assms(1,2,3) _ assms(4), of env now] by simp
next
  assume a: "status ct = CUSTOMER_SIGNED \<and> company (splitRolesBySigner roles) = []"
  then show t: "company_transaction now d documentId (Some sigs) =
      (Inl (Json 500 no_company_roles), rolled_back d)"
    using company_transaction_signed [OF assms(1,2,3) _ assms(4), of now] by simp
  show "companySign env now d documentId (Some sigs) = (Json 500 no_company_roles, d)"
    using companySign_Inl [OF t] by simp
next
  assume "validate_items items = Some r"
  then show "http_status r = Some 400" by (rule validate_items_status)
qed (simp_all add: role_not_allowed_status)

theorem c7_empty_required_set_witness:
  "customer (splitRolesBySigner []) = []
   \<and> customerSign sample_env 5
        \<lparr>tbl_contracts = [(sample_contract PENDING)\<lparr>config := \<lparr>signatures = None\<rparr>\<rparr>],
          tbl_signatures = []\<rparr> ''DOC-1'' (Some [(''customer_a'', PString sample_image)])
       = (Json 500 no_customer_roles,
          rolled_back \<lparr>tbl_contracts = [(sample_contract PENDING)\<lparr>config := \<lparr>signatures = None\<rparr>\<rparr>],
            tbl_signatures = []\<rparr>)
   \<and> company (splitRolesBySigner [''customer_a'']) = []
   \<and> companySign sample_env 5
        \<lparr>tbl_contracts = [(sample_contract CUSTOMER_SIGNED)
            \<lparr>config := \<lparr>signatures = Some [SigObj (JStr ''customer_a'') JNull]\<rparr>\<rparr>],
          tbl_signatures = []\<rparr> ''DOC-1'' (Some [(''company_w'', PString sample_image)])
       = (Json 500 no_company_roles,
          \<lparr>tbl_contracts = [(sample_contract CUSTOMER_SIGNED)
            \<lparr>config := \<lparr>signatures = Some [SigObj (JStr ''customer_a'') JNull]\<rparr>\<rparr>],
           tbl_signatures = []\<rparr>)
   \<and> validate_items
        [\<lparr>it_role = ''customer_a'', it_image = JStr ''no image'', it_name = None, it_position = None\<rparr>]
       = Some (Json 400 ''Invalid signature image for role: customer_a'')"
proof -
  let ?c1 = "(sample_contract PENDING)\<lparr>config := \<lparr>signatures = None\<rparr>\<rparr>"
  let ?c2 = "(sample_contract CUSTOMER_SIGNED)
      \<lparr>config := \<lparr>signatures = Some [SigObj (JStr ''customer_a'') JNull]\<rparr>\<rparr>"
  let ?i1 = "[\<lparr>it_role = ''customer_a'', it_image = JStr sample_image, it_name = None, it_position = None\<rparr>]"
  let ?i2 = "[\<lparr>it_role = ''company_w'', it_image = JStr sample_image, it_name = None, it_position = None\<rparr>]"
  have n1: "normalizeSignaturesPayload (Some [(''customer_a'', PString sample_image)]) = Inr ?i1"
    using normalize_strings [of "[(''customer_a'', sample_image)]"] by simp
  have n2: "normalizeSignaturesPayload (Some [(''company_w'', PString sample_image)]) = Inr ?i2"
    using normalize_strings [of "[(''company_w'', sample_image)]"] by simp
  have ne: "?i1 \<noteq> []" "?i2 \<noteq> []" by simp_all
  have f1: "getContractByDocumentId \<lparr>tbl_contracts = [?c1], tbl_signatures = []\<rparr> ''DOC-1'' = Some ?c1"
    and f2: "getContractByDocumentId \<lparr>tbl_contracts = [?c2], tbl_signatures = []\<rparr> ''DOC-1'' = Some ?c2"
    by (simp_all add: getContractByDocumentId_def sample_contract_def)
  have s1: "status ?c1 = PENDING" and s2: "status ?c2 = CUSTOMER_SIGNED"
    by (simp_all add: sample_contract_def)
  have x1: "extractRequiredRolesFromConfig (config ?c1) = Inr []" by code_simp
  have x2: "extractRequiredRolesFromConfig (config ?c2) = Inr [''customer_a'']" by code_simp
  have e1: "customer (splitRolesBySigner []) = []" by code_simp
  have e2: "company (splitRolesBySigner [''customer_a'']) = []" by code_simp
  have v: "validate_items
        [\<lparr>it_role = ''customer_a'', it_image = JStr ''no image'', it_name = None, it_position = None\<rparr>]
       = Some (Json 400 ''Invalid signature image for role: customer_a'')" by code_simp
  from c7_empty_required_set [OF n1 ne(1) f1 x1, where env = sample_env and now = 5] s1 e1
  have a: "customerSign sample_env 5 \<lparr>tbl_contracts = [?c1], tbl_signatures = []\<rparr> ''DOC-1''
      (Some [(''customer_a'', PString sample_image)])
       = (Json 500 no_customer_roles, rolled_back \<lparr>tbl_contracts = [?c1], tbl_signatures = []\<rparr>)"
    by blast
  from c7_empty_required_set [OF n2 ne(2) f2 x2, where env = sample_env and now = 5] s2 e2
  have b: "companySign sample_env 5 \<lparr>tbl_contracts = [?c2], tbl_signatures = []\<rparr> ''DOC-1''
      (Some [(''company_w'', PString sample_image)])
       = (Json 500 no_company_roles, \<lparr>tbl_contracts = [?c2], tbl_signatures = []\<rparr>)"
    by blast
  from e1 a e2 b v show ?thesis by (intro conjI)
qed

end
